theory Spec2Isabelle
  imports Main "HOL-Library.Sublist"
begin

section \<open>Values exchanged with the outside world\<close>

text \<open>
  A Python exception instance, reduced to what the code reads from it:
  \<^verbatim>\<open>type(e).__name__\<close> and \<^verbatim>\<open>str(e)\<close>. Only instances of
  \<^verbatim>\<open>Exception\<close> are modelled (what \<^verbatim>\<open>except Exception\<close> catches).
\<close>

datatype exn = Exn (exn_type: string) (exn_msg: string)

text \<open>
  What a Python call does: it returns a value or it raises.
\<close>

datatype 'a outcome = Returned 'a | Raised exn

text \<open>
  The values \<^verbatim>\<open>json.loads\<close> produces and \<^verbatim>\<open>json.dumps\<close> consumes:
  \<^verbatim>\<open>None\<close>, \<^verbatim>\<open>bool\<close>, \<^verbatim>\<open>int\<close>, \<^verbatim>\<open>str\<close>, \<^verbatim>\<open>list\<close> and
  \<^verbatim>\<open>dict\<close> (keys in insertion order, each key once). JSON numbers with a
  fraction are left out: the code never computes with a number.
\<close>

datatype json =
    JNull
  | JBool bool
  | JInt int
  | JStr string
  | JArr "json list"
  | JObj "(string \<times> json) list"

text \<open>\<^verbatim>\<open>isinstance(v, dict)\<close> and \<^verbatim>\<open>isinstance(v, list)\<close>.\<close>

fun is_dict :: "json \<Rightarrow> bool" where
  "is_dict (JObj kv) = True"
| "is_dict v = False"

fun is_list :: "json \<Rightarrow> bool" where
  "is_list (JArr xs) = True"
| "is_list v = False"

text \<open>Python truthiness (\<^verbatim>\<open>if v:\<close>) of a decoded value.\<close>

fun truthy :: "json \<Rightarrow> bool" where
  "truthy JNull = False"
| "truthy (JBool b) = b"
| "truthy (JInt n) = (n \<noteq> 0)"
| "truthy (JStr s) = (s \<noteq> [])"
| "truthy (JArr xs) = (xs \<noteq> [])"
| "truthy (JObj kv) = (kv \<noteq> [])"

text \<open>\<^verbatim>\<open>type(v).__name__\<close>, as it appears in an \<^verbatim>\<open>AttributeError\<close>.\<close>

fun type_name :: "json \<Rightarrow> string" where
  "type_name JNull = ''NoneType''"
| "type_name (JBool b) = ''bool''"
| "type_name (JInt n) = ''int''"
| "type_name (JStr s) = ''str''"
| "type_name (JArr xs) = ''list''"
| "type_name (JObj kv) = ''dict''"

text \<open>
  \<^verbatim>\<open>v.get(key, default)\<close>: only a \<^verbatim>\<open>dict\<close> has the method, any other
  value raises \<^verbatim>\<open>AttributeError\<close>.
\<close>

fun py_get :: "json \<Rightarrow> string \<Rightarrow> json \<Rightarrow> exn + json" where
  "py_get (JObj kv) key dflt = Inr (case map_of kv key of None \<Rightarrow> dflt | Some v \<Rightarrow> v)"
| "py_get v key dflt =
     Inl (Exn ''AttributeError''
            ([CHR 0x27] @ type_name v @ [CHR 0x27] @ '' object has no attribute '' @
             [CHR 0x27] @ ''get'' @ [CHR 0x27]))"

text \<open>
  \<^verbatim>\<open>str.isspace\<close> for one character; a \<^typ>\<open>char\<close> is a code point below 256,
  where the white space is TAB..CR, FS..US, SPACE, NEL and NBSP. \<^verbatim>\<open>str.strip()\<close>
  removes it at both ends.
\<close>

definition isspace :: "char \<Rightarrow> bool" where
  "isspace c =
     (let n = (of_char c :: nat)
      in (9 \<le> n \<and> n \<le> 13) \<or> (28 \<le> n \<and> n \<le> 32) \<or> n = 133 \<or> n = 160)"

definition strip :: "string \<Rightarrow> string" where
  "strip s = rev (dropWhile isspace (rev (dropWhile isspace s)))"

text \<open>\<^verbatim>\<open>str(n)\<close> for an \<^verbatim>\<open>int\<close>: decimal digits, a minus sign when negative.\<close>

fun str_nat :: "nat \<Rightarrow> string" where
  "str_nat n =
     (if n < 10 then [char_of (48 + n)]
      else str_nat (n div 10) @ [char_of (48 + n mod 10)])"

declare str_nat.simps [simp del]

definition str_int :: "int \<Rightarrow> string" where
  "str_int i = (if i < 0 then CHR ''-'' # str_nat (nat (- i)) else str_nat (nat i))"

section \<open>The Databricks SDK as seen by the trigger function\<close>

text \<open>
  What \<^verbatim>\<open>run_now\<close> returns, and \<^verbatim>\<open>Run\<close> and \<^verbatim>\<open>RunState\<close> of the SDK,
  with the attributes the code reads. Every attribute is optional in the SDK;
  \<^verbatim>\<open>life_cycle_state\<close> holds the enum member's \<^verbatim>\<open>.value\<close>.

  The code annotates the result of \<^verbatim>\<open>run_now\<close> as \<^verbatim>\<open>RunNowResponse\<close>;
  \<^verbatim>\<open>01b_agent_with_local_tool.py\<close> calls \<^verbatim>\<open>.result()\<close> on it, the SDK's
  waiter, an object that carries \<^verbatim>\<open>run_id\<close> and raises on an attribute it was
  not given. So reading \<^verbatim>\<open>number_in_job\<close> gives the value or the exception
  raised by the read.
\<close>

record run_now_response =
  run_id :: "int option"
  number_in_job :: "exn + int option"

record run_state =
  life_cycle_state :: "string option"
  state_message :: "string option"

record run =
  state :: "run_state option"
  run_page_url :: "string option"
  start_time :: "int option"

text \<open>The keyword arguments of \<^verbatim>\<open>w.jobs.run_now(...)\<close>.\<close>

record run_now_request =
  rq_job_id :: int
  rq_notebook_params :: "json option"
  rq_python_params :: "json option"
  rq_jar_params :: "json option"
  rq_pipeline_params :: "json option"
  rq_sql_params :: "json option"
  rq_dbt_commands :: "json option"
  rq_idempotency_token :: "string option"

text \<open>
  Everything the function calls that is not code of this repository: the builtin
  \<^verbatim>\<open>int()\<close> on a string, \<^verbatim>\<open>json.loads\<close>, the constructor
  \<^verbatim>\<open>WorkspaceClient()\<close> (\<open>Some e\<close> when it raises \<open>e\<close>), and the two remote
  calls \<^verbatim>\<open>w.jobs.run_now\<close> and \<^verbatim>\<open>w.jobs.get_run\<close>.
\<close>

record env =
  int_of_str :: "string \<Rightarrow> exn + int"
  json_loads :: "string \<Rightarrow> exn + json"
  client_init :: "exn option"
  run_now :: "run_now_request \<Rightarrow> exn + run_now_response"
  get_run :: "int option \<Rightarrow> exn + run"

text \<open>
  The calls a run of the function makes, in order. The remote calls are
  \<open>RunNow\<close> and \<open>GetRun\<close>.
\<close>

datatype call =
    WorkspaceClient
  | JsonLoads string
  | RunNow run_now_request
  | GetRun "int option"

fun is_remote :: "call \<Rightarrow> bool" where
  "is_remote (RunNow rq) = True"
| "is_remote (GetRun r) = True"
| "is_remote c = False"

definition remote_calls :: "call list \<Rightarrow> call list" where
  "remote_calls tr = filter is_remote tr"

section \<open>trigger\_databricks\_flow (src/trigger\_flow\_function.py)\<close>

text \<open>The two shapes a payload is checked against, and the text of the error.\<close>

datatype shape = Mapping | Sequence

fun has_shape :: "shape \<Rightarrow> json \<Rightarrow> bool" where
  "has_shape Mapping v = is_dict v"
| "has_shape Sequence v = is_list v"

fun shape_text :: "shape \<Rightarrow> string" where
  "shape_text Mapping = ''object (dictionary)''"
| "shape_text Sequence = ''array''"

text \<open>
  One of the six blocks of lines 121-149, together with the handler of lines 151-152:
  \<^verbatim>\<open>
  if notebook_params:
      parsed_notebook_params = json.loads(notebook_params)
      if not isinstance(parsed_notebook_params, dict):
          raise ValueError("notebook_params must be a JSON object (dictionary)")
  ...
  except json.JSONDecodeError as e:
      raise ValueError(f"Invalid JSON in parameters: {str(e)}")
  \<close>
  The payload is skipped when it is \<^verbatim>\<open>None\<close> or empty. An exception of
  \<^verbatim>\<open>json.loads\<close> other than \<^verbatim>\<open>JSONDecodeError\<close> is not handled; the
  \<^verbatim>\<open>ValueError\<close> of the shape check is not a \<^verbatim>\<open>JSONDecodeError\<close> either.
  The result is the parsed value (\<open>None\<close> when skipped) and the calls made.
\<close>

definition parse_payload ::
  "env \<Rightarrow> string \<Rightarrow> shape \<Rightarrow> string option \<Rightarrow> (exn + json option) \<times> call list" where
  "parse_payload env name sh payload =
     (case payload of
        None \<Rightarrow> (Inr None, [])
      | Some s \<Rightarrow>
          if s = [] then (Inr None, [])
          else (case json_loads env s of
                  Inl e \<Rightarrow>
                    (if exn_type e = ''JSONDecodeError''
                     then (Inl (Exn ''ValueError'' (''Invalid JSON in parameters: '' @ exn_msg e)),
                           [JsonLoads s])
                     else (Inl e, [JsonLoads s]))
                | Inr v \<Rightarrow>
                    (if has_shape sh v then (Inr (Some v), [JsonLoads s])
                     else (Inl (Exn ''ValueError'' (name @ '' must be a JSON '' @ shape_text sh)),
                           [JsonLoads s]))))"

text \<open>Statements in sequence: the first exception ends the run, the calls add up.\<close>

definition and_then ::
  "(exn + 'a) \<times> call list \<Rightarrow> ('a \<Rightarrow> (exn + 'b) \<times> call list) \<Rightarrow> (exn + 'b) \<times> call list" where
  "and_then m f =
     (case m of
        (Inl e, tr) \<Rightarrow> (Inl e, tr)
      | (Inr v, tr) \<Rightarrow> (case f v of (r, tr') \<Rightarrow> (r, tr @ tr')))"

text \<open>The six parsed values, as they are passed on to \<^verbatim>\<open>run_now\<close>.\<close>

record parsed_params =
  parsed_notebook_params :: "json option"
  parsed_python_params :: "json option"
  parsed_jar_params :: "json option"
  parsed_pipeline_params :: "json option"
  parsed_sql_params :: "json option"
  parsed_dbt_commands :: "json option"

text \<open>Lines 112-152: the six payloads in the order of the source.\<close>

definition parse_parameters ::
  "env \<Rightarrow> string option \<Rightarrow> string option \<Rightarrow> string option \<Rightarrow> string option \<Rightarrow>
   string option \<Rightarrow> string option \<Rightarrow> (exn + parsed_params) \<times> call list" where
  "parse_parameters env notebook_params python_params jar_params pipeline_params
                    sql_params dbt_commands =
     and_then (parse_payload env ''notebook_params'' Mapping notebook_params) (\<lambda>nb.
     and_then (parse_payload env ''python_params'' Sequence python_params) (\<lambda>py.
     and_then (parse_payload env ''jar_params'' Sequence jar_params) (\<lambda>jar.
     and_then (parse_payload env ''pipeline_params'' Mapping pipeline_params) (\<lambda>pl.
     and_then (parse_payload env ''sql_params'' Mapping sql_params) (\<lambda>sq.
     and_then (parse_payload env ''dbt_commands'' Sequence dbt_commands) (\<lambda>dbt.
       (Inr \<lparr> parsed_notebook_params = nb, parsed_python_params = py,
              parsed_jar_params = jar, parsed_pipeline_params = pl,
              parsed_sql_params = sq, parsed_dbt_commands = dbt \<rparr>, [])))))))"

text \<open>
  The six payloads in the order of lines 121-149: the name each has in the source
  and the shape it is checked against.
\<close>

definition payload_names :: "string list" where
  "payload_names = [''notebook_params'', ''python_params'', ''jar_params'',
                    ''pipeline_params'', ''sql_params'', ''dbt_commands'']"

definition payload_shapes :: "shape list" where
  "payload_shapes = [Mapping, Sequence, Sequence, Mapping, Mapping, Sequence]"

text \<open>
  A payload that passes its block: it is \<^verbatim>\<open>None\<close> or empty, or it decodes to a
  value of the expected shape.
\<close>

definition valid_payload :: "env \<Rightarrow> shape \<Rightarrow> string option \<Rightarrow> bool" where
  "valid_payload env sh p =
     (case p of
        None \<Rightarrow> True
      | Some s \<Rightarrow> s = [] \<or> (case json_loads env s of Inl e \<Rightarrow> False | Inr v \<Rightarrow> has_shape sh v))"

text \<open>
  The \<^verbatim>\<open>json.loads\<close> calls made when each payload of a list is looked at: one
  for every payload that is neither \<^verbatim>\<open>None\<close> nor empty.
\<close>

definition decoded :: "string option list \<Rightarrow> call list" where
  "decoded ps =
     concat (map (\<lambda>p. case p of None \<Rightarrow> [] | Some s \<Rightarrow> if s = [] then [] else [JsonLoads s]) ps)"

text \<open>Optional attributes as values of the result dictionary.\<close>

definition opt_int :: "int option \<Rightarrow> json" where
  "opt_int x = (case x of None \<Rightarrow> JNull | Some i \<Rightarrow> JInt i)"

definition opt_str :: "string option \<Rightarrow> json" where
  "opt_str x = (case x of None \<Rightarrow> JNull | Some s \<Rightarrow> JStr s)"

text \<open>\<^verbatim>\<open>f"{run_id}"\<close> of an optional integer.\<close>

definition fmt_opt_int :: "int option \<Rightarrow> string" where
  "fmt_opt_int x = (case x of None \<Rightarrow> ''None'' | Some i \<Rightarrow> str_int i)"

text \<open>Lines 172-184: the dictionary handed to \<^verbatim>\<open>json.dumps\<close> on success.\<close>

definition success_result ::
  "string \<Rightarrow> run_now_response \<Rightarrow> int option \<Rightarrow> run \<Rightarrow> json \<Rightarrow> json \<Rightarrow> json" where
  "success_result job_id resp num details lcs msg =
     JObj [(''success'', JBool True),
           (''run_id'', opt_int (run_id resp)),
           (''number_in_job'', opt_int num),
           (''job_id'', JStr job_id),
           (''state'', JObj [(''life_cycle_state'', lcs), (''state_message'', msg)]),
           (''run_page_url'', opt_str (run_page_url details)),
           (''start_time'', opt_int (start_time details)),
           (''message'', JStr (''Successfully triggered job '' @ job_id @ ''. Run ID: '' @
                               fmt_opt_int (run_id resp)))]"

text \<open>Lines 189-195: the dictionary handed to \<^verbatim>\<open>json.dumps\<close> on failure.\<close>

definition error_result :: "string \<Rightarrow> exn \<Rightarrow> json" where
  "error_result job_id e =
     JObj [(''success'', JBool False),
           (''job_id'', JStr job_id),
           (''error'', JStr (exn_msg e)),
           (''error_type'', JStr (exn_type e)),
           (''message'', JStr (''Failed to trigger job '' @ job_id @ '': '' @ exn_msg e))]"

text \<open>
  Lines 156-186, the body of the \<^verbatim>\<open>try\<close>. The argument \<^verbatim>\<open>int(job_id)\<close> is
  evaluated before \<^verbatim>\<open>run_now\<close> is called. The dictionary is built after both
  remote calls, entry by entry: \<^verbatim>\<open>run_response.number_in_job\<close> is read first, and
  reading \<^verbatim>\<open>run_details.state.life_cycle_state.value\<close> raises
  \<^verbatim>\<open>AttributeError\<close> when the state is there and its life cycle state is
  \<^verbatim>\<open>None\<close>.
\<close>

definition run_now_args :: "int \<Rightarrow> parsed_params \<Rightarrow> string option \<Rightarrow> run_now_request" where
  "run_now_args n ps idempotency_token =
     \<lparr> rq_job_id = n,
       rq_notebook_params = parsed_notebook_params ps,
       rq_python_params = parsed_python_params ps,
       rq_jar_params = parsed_jar_params ps,
       rq_pipeline_params = parsed_pipeline_params ps,
       rq_sql_params = parsed_sql_params ps,
       rq_dbt_commands = parsed_dbt_commands ps,
       rq_idempotency_token = idempotency_token \<rparr>"

definition none_has_no_value :: exn where
  "none_has_no_value =
     Exn ''AttributeError''
       ([CHR 0x27] @ ''NoneType'' @ [CHR 0x27] @ '' object has no attribute '' @
        [CHR 0x27] @ ''value'' @ [CHR 0x27])"

definition try_body ::
  "env \<Rightarrow> string \<Rightarrow> parsed_params \<Rightarrow> string option \<Rightarrow> (exn + json) \<times> call list" where
  "try_body env job_id ps idempotency_token =
     (case int_of_str env job_id of
        Inl e \<Rightarrow> (Inl e, [])
      | Inr n \<Rightarrow>
          (let rq = run_now_args n ps idempotency_token
           in case run_now env rq of
                Inl e \<Rightarrow> (Inl e, [RunNow rq])
              | Inr resp \<Rightarrow>
                  (case get_run env (run_id resp) of
                     Inl e \<Rightarrow> (Inl e, [RunNow rq, GetRun (run_id resp)])
                   | Inr details \<Rightarrow>
                       (case number_in_job resp of
                          Inl e \<Rightarrow> (Inl e, [RunNow rq, GetRun (run_id resp)])
                        | Inr num \<Rightarrow>
                            (case state details of
                               None \<Rightarrow>
                                 (Inr (success_result job_id resp num details JNull JNull),
                                  [RunNow rq, GetRun (run_id resp)])
                             | Some st \<Rightarrow>
                                 (case life_cycle_state st of
                                    None \<Rightarrow>
                                      (Inl none_has_no_value,
                                       [RunNow rq, GetRun (run_id resp)])
                                  | Some l \<Rightarrow>
                                      (Inr (success_result job_id resp num details (JStr l)
                                              (opt_str (state_message st))),
                                       [RunNow rq, GetRun (run_id resp)])))))))"

text \<open>
  Lines 155-196: \<^verbatim>\<open>except Exception\<close> turns every exception of the body into
  the failure dictionary, which is returned.
\<close>

definition try_except ::
  "env \<Rightarrow> string \<Rightarrow> parsed_params \<Rightarrow> string option \<Rightarrow> json \<times> call list" where
  "try_except env job_id ps idempotency_token =
     (case try_body env job_id ps idempotency_token of
        (Inl e, tr) \<Rightarrow> (error_result job_id e, tr)
      | (Inr r, tr) \<Rightarrow> (r, tr))"

text \<open>
  The whole function. The result is the dictionary whose \<^verbatim>\<open>json.dumps\<close> text
  is returned, or the exception raised, with the calls made. \<^verbatim>\<open>not job_id\<close>
  holds for \<^verbatim>\<open>None\<close> and for the empty string.
\<close>

definition job_id_error :: exn where
  "job_id_error = Exn ''ValueError'' ''job_id is required and cannot be empty''"

definition trigger_databricks_flow ::
  "env \<Rightarrow> string option \<Rightarrow> string option \<Rightarrow> string option \<Rightarrow> string option \<Rightarrow>
   string option \<Rightarrow> string option \<Rightarrow> string option \<Rightarrow> string option \<Rightarrow>
   json outcome \<times> call list" where
  "trigger_databricks_flow env job_id notebook_params python_params jar_params
                           pipeline_params sql_params dbt_commands idempotency_token =
     (case job_id of
        None \<Rightarrow> (Raised job_id_error, [])
      | Some j \<Rightarrow>
          if j = [] \<or> strip j = [] then (Raised job_id_error, [])
          else (case client_init env of
                  Some e \<Rightarrow> (Raised e, [WorkspaceClient])
                | None \<Rightarrow>
                    (case parse_parameters env notebook_params python_params jar_params
                                           pipeline_params sql_params dbt_commands of
                       (Inl e, tr) \<Rightarrow> (Raised e, WorkspaceClient # tr)
                     | (Inr ps, tr) \<Rightarrow>
                         (case try_except env j ps idempotency_token of
                            (r, tr') \<Rightarrow> (Returned r, WorkspaceClient # tr @ tr')))))"

section \<open>trigger\_and\_monitor\_job (src/example\_usage.py)\<close>

text \<open>
  The notebook reaches the two Unity Catalog functions through \<^verbatim>\<open>spark.sql\<close>
  and decodes the text they return with \<^verbatim>\<open>json.loads\<close>. Both steps are
  outside this repository; together they are one query that returns the decoded
  value or raises. \<open>sql_get_job_status k run_id\<close> is the answer to the query
  number \<open>k\<close> (from 0) of a call: the backend's answer changes with time.
  \<open>time_sleep d\<close> is the library call \<^verbatim>\<open>time.sleep(d)\<close>: \<open>None\<close> when it
  returns, \<open>Some e\<close> when it raises \<open>e\<close> (it refuses a negative length and a
  length too large for the platform's clock).
\<close>

record notebook_env =
  sql_trigger :: "string \<Rightarrow> json option \<Rightarrow> exn + json"
  sql_get_job_status :: "nat \<Rightarrow> json \<Rightarrow> exn + json"
  time_sleep :: "int \<Rightarrow> exn option"

datatype event =
    TriggerQuery string "json option"
  | StatusQuery json
  | Sleep int

fun is_status_query :: "event \<Rightarrow> bool" where
  "is_status_query (StatusQuery r) = True"
| "is_status_query ev = False"

fun is_sleep :: "event \<Rightarrow> bool" where
  "is_sleep (Sleep d) = True"
| "is_sleep ev = False"

definition status_queries :: "event list \<Rightarrow> nat" where
  "status_queries tr = length (filter is_status_query tr)"

definition sleeps :: "event list \<Rightarrow> nat" where
  "sleeps tr = length (filter is_sleep tr)"

text \<open>Line 358: the list the life cycle state is looked up in.\<close>

definition terminal_states :: "json list" where
  "terminal_states = [JStr ''TERMINATED'', JStr ''SKIPPED'', JStr ''INTERNAL_ERROR'']"

text \<open>
  Lines 350-360, for one decoded answer: \<open>Inr True\<close> when the function returns
  the answer, \<open>Inr False\<close> when it goes on to sleep, \<open>Inl e\<close> when a
  \<^verbatim>\<open>.get\<close> raises.
  \<^verbatim>\<open>
  if status_dict.get('success'):
      state = status_dict.get('state', {})
      life_cycle_state = state.get('life_cycle_state')
      result_state = state.get('result_state')
      if life_cycle_state in ['TERMINATED', 'SKIPPED', 'INTERNAL_ERROR']:
          return status_dict
  \<close>
\<close>

definition completed :: "json \<Rightarrow> exn + bool" where
  "completed status_dict =
     (case py_get status_dict ''success'' JNull of
        Inl e \<Rightarrow> Inl e
      | Inr ok \<Rightarrow>
          if truthy ok
          then (case py_get status_dict ''state'' (JObj []) of
                  Inl e \<Rightarrow> Inl e
                | Inr st \<Rightarrow>
                    (case py_get st ''life_cycle_state'' JNull of
                       Inl e \<Rightarrow> Inl e
                     | Inr l \<Rightarrow> Inr (l \<in> set terminal_states)))
          else Inr False)"

text \<open>
  Lines 342-366, the \<^verbatim>\<open>while elapsed < max_wait\<close> loop. The loop need not
  end (a zero \<^verbatim>\<open>poll_interval\<close> never advances \<^verbatim>\<open>elapsed\<close>), so the
  result is optional: \<open>None\<close> is a run that never returns. \<open>Returned None\<close>
  is the \<^verbatim>\<open>return None\<close> after the time-out message. An exception of
  \<^verbatim>\<open>time.sleep\<close> is not handled and ends the call; a \<open>Sleep\<close> event is a
  sleep that returned.
\<close>

partial_function (option) monitor_loop ::
  "notebook_env \<Rightarrow> json \<Rightarrow> int \<Rightarrow> int \<Rightarrow> int \<Rightarrow> nat \<Rightarrow> event list \<Rightarrow>
   (json option outcome \<times> event list) option" where
  "monitor_loop env rid poll_interval max_wait elapsed k tr =
     (if elapsed < max_wait
      then (case sql_get_job_status env k rid of
              Inl e \<Rightarrow> Some (Raised e, tr @ [StatusQuery rid])
            | Inr status_dict \<Rightarrow>
                (case completed status_dict of
                   Inl e \<Rightarrow> Some (Raised e, tr @ [StatusQuery rid])
                 | Inr done \<Rightarrow>
                     if done then Some (Returned (Some status_dict), tr @ [StatusQuery rid])
                     else (case time_sleep env poll_interval of
                             Some e \<Rightarrow> Some (Raised e, tr @ [StatusQuery rid])
                           | None \<Rightarrow>
                               monitor_loop env rid poll_interval max_wait
                                 (elapsed + poll_interval) (Suc k)
                                 (tr @ [StatusQuery rid, Sleep poll_interval]))))
      else Some (Returned None, tr))"

declare monitor_loop.simps [code]

text \<open>Lines 340-366: the monitoring part, from \<^verbatim>\<open>elapsed = 0\<close>.\<close>

definition monitor ::
  "notebook_env \<Rightarrow> json \<Rightarrow> int \<Rightarrow> int \<Rightarrow> (json option outcome \<times> event list) option" where
  "monitor env rid poll_interval max_wait = monitor_loop env rid poll_interval max_wait 0 0 []"

text \<open>
  The whole function (lines 309-366). \<^verbatim>\<open>notebook_params\<close> is a dictionary or
  \<^verbatim>\<open>None\<close>; the query carries it when it is truthy. A trigger result without a
  truthy \<^verbatim>\<open>success\<close> ends the call with \<^verbatim>\<open>None\<close>.
\<close>

definition trigger_and_monitor_job ::
  "notebook_env \<Rightarrow> string \<Rightarrow> json option \<Rightarrow> int \<Rightarrow> int \<Rightarrow>
   (json option outcome \<times> event list) option" where
  "trigger_and_monitor_job env job_id notebook_params poll_interval max_wait =
     (let params = (case notebook_params of
                      None \<Rightarrow> None
                    | Some d \<Rightarrow> if truthy d then Some d else None)
      in case sql_trigger env job_id params of
           Inl e \<Rightarrow> Some (Raised e, [TriggerQuery job_id params])
         | Inr result_dict \<Rightarrow>
             (case py_get result_dict ''success'' JNull of
                Inl e \<Rightarrow> Some (Raised e, [TriggerQuery job_id params])
              | Inr ok \<Rightarrow>
                  if \<not> truthy ok then Some (Returned None, [TriggerQuery job_id params])
                  else (case py_get result_dict ''run_id'' JNull of
                          Inl e \<Rightarrow> Some (Raised e, [TriggerQuery job_id params])
                        | Inr rid \<Rightarrow>
                            monitor_loop env rid poll_interval max_wait 0 0
                              [TriggerQuery job_id params])))"

section \<open>A test double\<close>

text \<open>
  A backend in the style of the end-to-end scenario: the job starts as run 555,
  number 1. \<open>demo_int\<close> stands in for \<^verbatim>\<open>int()\<close> on the identifiers used
  below, \<open>demo_loads\<close> for \<^verbatim>\<open>json.loads\<close> on the payloads used below.
\<close>

definition demo_int :: "string \<Rightarrow> exn + int" where
  "demo_int s =
     (if s = ''123456789'' then Inr 123456789
      else Inl (Exn ''ValueError''
                  (''invalid literal for int() with base 10: '' @ [CHR 0x27] @ s @ [CHR 0x27])))"

definition demo_loads :: "string \<Rightarrow> exn + json" where
  "demo_loads s =
     (if s = ''{}'' then Inr (JObj [])
      else if s = ''[]'' then Inr (JArr [])
      else if s = ''7'' then Inr (JInt 7)
      else if s = ''[1]'' then Inr (JArr [JInt 1])
      else Inl (Exn ''JSONDecodeError'' ''Expecting value: line 1 column 1 (char 0)''))"

definition demo_run :: run where
  "demo_run = \<lparr> state = Some \<lparr> life_cycle_state = Some ''PENDING'', state_message = Some [] \<rparr>,
                 run_page_url = Some ''https://example.test/run/555'',
                 start_time = Some 1700000000000 \<rparr>"

definition demo_env :: env where
  "demo_env = \<lparr> int_of_str = demo_int,
                 json_loads = demo_loads,
                 client_init = None,
                 run_now = (\<lambda>rq. Inr \<lparr> run_id = Some 555, number_in_job = Inr (Some 1) \<rparr>),
                 get_run = (\<lambda>r. Inr demo_run) \<rparr>"

text \<open>The same backend with a start-run call that fails, and with a failing get-run.\<close>

definition no_such_job :: exn where
  "no_such_job = Exn ''ResourceDoesNotExist'' ''Job 123456789 does not exist.''"

definition failing_env :: env where
  "failing_env = demo_env \<lparr> run_now := (\<lambda>rq. Inl no_such_job) \<rparr>"

text \<open>Status answers: a running run, a finished run, a failed query.\<close>

definition running_status :: json where
  "running_status =
     JObj [(''success'', JBool True),
           (''state'', JObj [(''life_cycle_state'', JStr ''RUNNING''),
                             (''result_state'', JNull)])]"

definition terminated_status :: json where
  "terminated_status =
     JObj [(''success'', JBool True),
           (''state'', JObj [(''life_cycle_state'', JStr ''TERMINATED''),
                             (''result_state'', JStr ''SUCCESS'')])]"

definition failed_query :: json where
  "failed_query =
     JObj [(''success'', JBool False),
           (''error'', JStr ''Connection reset''),
           (''error_type'', JStr ''ConnectionError'')]"

definition trigger_ok :: json where
  "trigger_ok = JObj [(''success'', JBool True), (''run_id'', JInt 555)]"

text \<open>
  \<^verbatim>\<open>time.sleep\<close> as CPython 3.11 on Linux has it for an integer length: it
  raises \<^verbatim>\<open>OverflowError\<close> for a length that does not fit its clock (from
  9223372037 seconds, in either direction), \<^verbatim>\<open>ValueError\<close> for any other
  negative length, and returns otherwise.
\<close>

definition sleep_error :: exn where
  "sleep_error = Exn ''ValueError'' ''sleep length must be non-negative''"

definition overflow_error :: exn where
  "overflow_error = Exn ''OverflowError'' ''timestamp too large to convert to C _PyTime_t''"

definition demo_sleep :: "int \<Rightarrow> exn option" where
  "demo_sleep d =
     (if 9223372037 \<le> d \<or> d \<le> - 9223372037 then Some overflow_error
      else if d < 0 then Some sleep_error
      else None)"

text \<open>Backends for the poller: always done, never done, failing once, then done.\<close>

definition done_nb :: notebook_env where
  "done_nb = \<lparr> sql_trigger = (\<lambda>j p. Inr trigger_ok),
                sql_get_job_status = (\<lambda>k r. Inr terminated_status),
                time_sleep = demo_sleep \<rparr>"

definition running_nb :: notebook_env where
  "running_nb = \<lparr> sql_trigger = (\<lambda>j p. Inr trigger_ok),
                   sql_get_job_status = (\<lambda>k r. Inr running_status),
                   time_sleep = demo_sleep \<rparr>"

definition flaky_nb :: notebook_env where
  "flaky_nb = \<lparr> sql_trigger = (\<lambda>j p. Inr trigger_ok),
                 sql_get_job_status =
                   (\<lambda>k r. if k = 0 then Inr failed_query else Inr terminated_status),
                 time_sleep = demo_sleep \<rparr>"

text \<open>A backend whose status query always reports a failure, and one whose query raises.\<close>

definition down_nb :: notebook_env where
  "down_nb = \<lparr> sql_trigger = (\<lambda>j p. Inr trigger_ok),
                sql_get_job_status = (\<lambda>k r. Inr failed_query),
                time_sleep = demo_sleep \<rparr>"

definition connection_lost :: exn where
  "connection_lost = Exn ''ConnectionError'' ''Connection reset''"

definition broken_nb :: notebook_env where
  "broken_nb = \<lparr> sql_trigger = (\<lambda>j p. Inr trigger_ok),
                  sql_get_job_status = (\<lambda>k r. Inl connection_lost),
                  time_sleep = demo_sleep \<rparr>"

section \<open>Auxiliary facts\<close>

lemma strip_Nil: "strip [] = []"
  by (simp add: strip_def)

lemma dropWhile_all_iff: "(\<forall>x \<in> set (dropWhile P s). P x) \<longleftrightarrow> (\<forall>x \<in> set s. P x)"
proof
  assume a: "\<forall>x \<in> set (dropWhile P s). P x"
  have "dropWhile P s = []"
  proof (rule ccontr)
    assume ne: "dropWhile P s \<noteq> []"
    then have "\<not> P (hd (dropWhile P s))" by (rule hd_dropWhile)
    moreover have "hd (dropWhile P s) \<in> set (dropWhile P s)" using ne by simp
    ultimately show False using a by blast
  qed
  then show "\<forall>x \<in> set s. P x" by (simp add: dropWhile_eq_Nil_conv)
next
  assume "\<forall>x \<in> set s. P x"
  then show "\<forall>x \<in> set (dropWhile P s). P x" by (meson set_dropWhileD)
qed

lemma strip_empty_iff: "strip s = [] \<longleftrightarrow> (\<forall>c \<in> set s. isspace c)"
  by (simp add: strip_def dropWhile_eq_Nil_conv dropWhile_all_iff)

lemma parse_payload_empty:
  "parse_payload env name sh (Some []) = parse_payload env name sh None"
  by (simp add: parse_payload_def)

lemma parse_payload_calls:
  "snd (parse_payload env name sh p) =
     (case p of None \<Rightarrow> [] | Some s \<Rightarrow> if s = [] then [] else [JsonLoads s])"
  by (simp add: parse_payload_def split: option.splits sum.splits)

lemma remote_calls_append: "remote_calls (xs @ ys) = remote_calls xs @ remote_calls ys"
  by (simp add: remote_calls_def)

lemma remote_parse_payload: "remote_calls (snd (parse_payload env name sh p)) = []"
  by (simp add: parse_payload_calls remote_calls_def split: option.splits)

lemma remote_and_then:
  "remote_calls (snd m) = [] \<Longrightarrow> (\<And>v. remote_calls (snd (f v)) = []) \<Longrightarrow>
   remote_calls (snd (and_then m f)) = []"
  by (cases m) (auto simp: and_then_def remote_calls_append split: sum.splits prod.splits,
      metis snd_conv)

lemma remote_parse_parameters:
  "remote_calls (snd (parse_parameters env nb py jar pl sq dbt)) = []"
  unfolding parse_parameters_def
  by (intro remote_and_then remote_parse_payload) (simp add: remote_calls_def)

lemma trigger_valid:
  assumes "strip j \<noteq> []" and "client_init env = None"
      and "parse_parameters env nb py jar pl sq dbt = (Inr ps, tr)"
  shows "trigger_databricks_flow env (Some j) nb py jar pl sq dbt tok =
           (Returned (fst (try_except env j ps tok)),
            WorkspaceClient # tr @ snd (try_except env j ps tok))"
proof -
  from assms(1) have "j \<noteq> []" by (auto simp: strip_Nil)
  with assms show ?thesis
    by (simp add: trigger_databricks_flow_def split: prod.splits)
qed

lemma try_except_int_fails:
  "int_of_str env j = Inl e \<Longrightarrow> try_except env j ps tok = (error_result j e, [])"
  by (simp add: try_except_def try_body_def)

lemma try_except_run_now_fails:
  "int_of_str env j = Inr n \<Longrightarrow> run_now env (run_now_args n ps tok) = Inl e \<Longrightarrow>
   try_except env j ps tok = (error_result j e, [RunNow (run_now_args n ps tok)])"
  by (simp add: try_except_def try_body_def)

lemma try_except_get_run_fails:
  "int_of_str env j = Inr n \<Longrightarrow> run_now env (run_now_args n ps tok) = Inr resp \<Longrightarrow>
   get_run env (run_id resp) = Inl e \<Longrightarrow>
   try_except env j ps tok =
     (error_result j e, [RunNow (run_now_args n ps tok), GetRun (run_id resp)])"
  by (simp add: try_except_def try_body_def)

text \<open>
  When the object returned by \<^verbatim>\<open>run_now\<close> does not give \<^verbatim>\<open>number_in_job\<close>,
  the run was started and looked up, and the call returns the failure object.
\<close>

lemma try_except_number_unreadable:
  "int_of_str env j = Inr n \<Longrightarrow> run_now env (run_now_args n ps tok) = Inr resp \<Longrightarrow>
   get_run env (run_id resp) = Inr details \<Longrightarrow> number_in_job resp = Inl e \<Longrightarrow>
   try_except env j ps tok =
     (error_result j e, [RunNow (run_now_args n ps tok), GetRun (run_id resp)])"
  by (simp add: try_except_def try_body_def)

lemma trigger_blank:
  "job = None \<or> (\<exists>j. job = Some j \<and> (\<forall>c \<in> set j. isspace c)) \<Longrightarrow>
   trigger_databricks_flow env job nb py jar pl sq dbt tok = (Raised job_id_error, [])"
  by (auto simp: trigger_databricks_flow_def strip_empty_iff)

lemma try_body_Inr:
  assumes "try_body env j ps tok = (Inr r, tr')"
  shows "\<exists>n resp details num.
           int_of_str env j = Inr n
         \<and> run_now env (run_now_args n ps tok) = Inr resp
         \<and> get_run env (run_id resp) = Inr details
         \<and> number_in_job resp = Inr num
         \<and> tr' = [RunNow (run_now_args n ps tok), GetRun (run_id resp)]
         \<and> r = success_result j resp num details
                 (case state details of None \<Rightarrow> JNull | Some st \<Rightarrow> opt_str (life_cycle_state st))
                 (case state details of None \<Rightarrow> JNull | Some st \<Rightarrow> opt_str (state_message st))
         \<and> (\<forall>st. state details = Some st \<longrightarrow> life_cycle_state st \<noteq> None)"
  using assms
  by (auto simp: try_body_def Let_def opt_str_def split: sum.splits option.splits)

lemma try_body_success:
  assumes "int_of_str env j = Inr n"
      and "run_now env (run_now_args n ps tok) = Inr resp"
      and "get_run env (run_id resp) = Inr details"
      and "number_in_job resp = Inr num"
      and "\<forall>st. state details = Some st \<longrightarrow> life_cycle_state st \<noteq> None"
  shows "try_body env j ps tok =
           (Inr (success_result j resp num details
                   (case state details of None \<Rightarrow> JNull | Some st \<Rightarrow> opt_str (life_cycle_state st))
                   (case state details of None \<Rightarrow> JNull | Some st \<Rightarrow> opt_str (state_message st))),
            [RunNow (run_now_args n ps tok), GetRun (run_id resp)])"
  using assms
  by (auto simp: try_body_def Let_def opt_str_def split: sum.splits option.splits)

lemma trigger_Returned:
  assumes "trigger_databricks_flow env job nb py jar pl sq dbt tok = (Returned r, tr)"
  shows "\<exists>j ps trp. job = Some j \<and> strip j \<noteq> [] \<and> client_init env = None
          \<and> parse_parameters env nb py jar pl sq dbt = (Inr ps, trp)
          \<and> r = fst (try_except env j ps tok)
          \<and> tr = WorkspaceClient # trp @ snd (try_except env j ps tok)"
  using assms
  by (auto simp: trigger_databricks_flow_def split: option.splits if_splits sum.splits prod.splits)

lemma try_except_success:
  assumes "try_except env j ps tok = (JObj kv, tr')"
      and "map_of kv ''success'' = Some (JBool True)"
  shows "try_body env j ps tok = (Inr (JObj kv), tr')"
  using assms
  by (auto simp: try_except_def error_result_def split: sum.splits prod.splits)

lemma and_then_unfold:
  "and_then m f =
     (if isl (fst m) then (Inl (projl (fst m)), snd m)
      else (fst (f (projr (fst m))), snd m @ snd (f (projr (fst m)))))"
  by (cases m) (auto simp: and_then_def split: sum.splits prod.splits)

lemma isl_parse_payload:
  "isl (fst (parse_payload env name sh p)) \<longleftrightarrow> \<not> valid_payload env sh p"
  by (auto simp: parse_payload_def valid_payload_def split: option.splits sum.splits)

lemma parse_parameters_first_error:
  assumes k: "k < 6"
      and ok: "\<forall>i<k. valid_payload env (payload_shapes ! i) ([nb, py, jar, pl, sq, dbt] ! i)"
      and bad: "\<not> valid_payload env (payload_shapes ! k) ([nb, py, jar, pl, sq, dbt] ! k)"
  shows "parse_parameters env nb py jar pl sq dbt =
           (Inl (projl (fst (parse_payload env (payload_names ! k) (payload_shapes ! k)
                               ([nb, py, jar, pl, sq, dbt] ! k)))),
            decoded (take (Suc k) [nb, py, jar, pl, sq, dbt]))"
proof -
  from k consider "k = 0" | "k = 1" | "k = 2" | "k = 3" | "k = 4" | "k = 5"
    by linarith
  then show ?thesis
  proof cases
    case 1
    with bad show ?thesis
      by (simp add: parse_parameters_def and_then_unfold isl_parse_payload payload_names_def
            payload_shapes_def decoded_def parse_payload_calls)
  next
    case 2
    with ok bad show ?thesis
      by (simp add: parse_parameters_def and_then_unfold isl_parse_payload payload_names_def
            payload_shapes_def decoded_def parse_payload_calls)
  next
    case 3
    with ok bad show ?thesis
      by (simp add: parse_parameters_def and_then_unfold isl_parse_payload payload_names_def
            payload_shapes_def decoded_def parse_payload_calls eval_nat_numeral All_less_Suc)
  next
    case 4
    with ok bad show ?thesis
      by (simp add: parse_parameters_def and_then_unfold isl_parse_payload payload_names_def
            payload_shapes_def decoded_def parse_payload_calls eval_nat_numeral All_less_Suc)
  next
    case 5
    with ok bad show ?thesis
      by (simp add: parse_parameters_def and_then_unfold isl_parse_payload payload_names_def
            payload_shapes_def decoded_def parse_payload_calls eval_nat_numeral All_less_Suc)
  next
    case 6
    with ok bad show ?thesis
      by (simp add: parse_parameters_def and_then_unfold isl_parse_payload payload_names_def
            payload_shapes_def decoded_def parse_payload_calls eval_nat_numeral All_less_Suc)
  qed
qed

lemma parse_payload_shape_error:
  "s \<noteq> [] \<Longrightarrow> json_loads env s = Inr v \<Longrightarrow> \<not> has_shape sh v \<Longrightarrow>
   fst (parse_payload env name sh (Some s)) =
     Inl (Exn ''ValueError'' (name @ '' must be a JSON '' @ shape_text sh))"
  by (simp add: parse_payload_def)

lemma parse_payload_decode_error:
  "s \<noteq> [] \<Longrightarrow> json_loads env s = Inl d \<Longrightarrow>
   fst (parse_payload env name sh (Some s)) =
     Inl (if exn_type d = ''JSONDecodeError''
          then Exn ''ValueError'' (''Invalid JSON in parameters: '' @ exn_msg d) else d)"
  by (simp add: parse_payload_def)

lemma wrong_shape_invalid:
  "s \<noteq> [] \<Longrightarrow> json_loads env s = Inr v \<Longrightarrow> \<not> has_shape sh v \<Longrightarrow>
   \<not> valid_payload env sh (Some s)"
  by (simp add: valid_payload_def)

lemma trigger_invalid_parameters:
  assumes "strip j \<noteq> []" and "client_init env = None"
      and "parse_parameters env nb py jar pl sq dbt = (Inl e, tr)"
  shows "trigger_databricks_flow env (Some j) nb py jar pl sq dbt tok =
           (Raised e, WorkspaceClient # tr)"
proof -
  from assms(1) have "j \<noteq> []" by (auto simp: strip_Nil)
  with assms show ?thesis
    by (simp add: trigger_databricks_flow_def)
qed

lemma remote_decoded: "remote_calls (WorkspaceClient # decoded ps) = []"
  by (induction ps) (auto simp: decoded_def remote_calls_def split: option.splits)

text \<open>The test double on a plain request: one start-run call, one get-run call.\<close>

lemma demo_plain_run:
  "trigger_databricks_flow demo_env (Some ''123456789'') None None None None None None None =
     (Returned
        (JObj [(''success'', JBool True), (''run_id'', JInt 555), (''number_in_job'', JInt 1),
               (''job_id'', JStr ''123456789''),
               (''state'', JObj [(''life_cycle_state'', JStr ''PENDING''),
                                 (''state_message'', JStr [])]),
               (''run_page_url'', JStr ''https://example.test/run/555''),
               (''start_time'', JInt 1700000000000),
               (''message'', JStr ''Successfully triggered job 123456789. Run ID: 555'')]),
      [WorkspaceClient,
       RunNow \<lparr> rq_job_id = 123456789, rq_notebook_params = None, rq_python_params = None,
                rq_jar_params = None, rq_pipeline_params = None, rq_sql_params = None,
                rq_dbt_commands = None, rq_idempotency_token = None \<rparr>,
       GetRun (Some 555)])"
  by code_simp

lemma failing_parse: "parse_parameters failing_env None None None None None None =
   (Inr \<lparr> parsed_notebook_params = None, parsed_python_params = None,
          parsed_jar_params = None, parsed_pipeline_params = None,
          parsed_sql_params = None, parsed_dbt_commands = None \<rparr>, [])"
  by code_simp

lemma strip_job: "strip ''123456789'' = ''123456789''"
  by code_simp

lemma demo_parse: "parse_parameters demo_env None None None None None None =
   (Inr \<lparr> parsed_notebook_params = None, parsed_python_params = None,
          parsed_jar_params = None, parsed_pipeline_params = None,
          parsed_sql_params = None, parsed_dbt_commands = None \<rparr>, [])"
  by code_simp

lemma strip_abc: "strip ''abc'' = ''abc''"
  by code_simp

lemma blank_is_space: "\<forall>c \<in> set [CHR '' '', CHR 0x09]. isspace c"
  by (simp add: isspace_def)

text \<open>The polling loop, one round at a time.\<close>

lemma completed_unsuccess:
  "py_get d ''success'' JNull = Inr ok \<Longrightarrow> \<not> truthy ok \<Longrightarrow> completed d = Inr False"
  by (simp add: completed_def)




lemma loop_over: "\<not> elapsed < max_wait \<Longrightarrow>
  monitor_loop env rid poll_interval max_wait elapsed k tr = Some (Returned None, tr)"
  by (subst monitor_loop.simps) simp

lemma loop_raises:
  "elapsed < max_wait \<Longrightarrow> sql_get_job_status env k rid = Inl x \<Longrightarrow>
   monitor_loop env rid poll_interval max_wait elapsed k tr =
     Some (Raised x, tr @ [StatusQuery rid])"
  by (subst monitor_loop.simps) simp


lemma loop_done:
  "elapsed < max_wait \<Longrightarrow> sql_get_job_status env k rid = Inr d \<Longrightarrow> completed d = Inr True \<Longrightarrow>
   monitor_loop env rid poll_interval max_wait elapsed k tr =
     Some (Returned (Some d), tr @ [StatusQuery rid])"
  by (subst monitor_loop.simps) simp

lemma loop_sleep_raises:
  "elapsed < max_wait \<Longrightarrow> sql_get_job_status env k rid = Inr d \<Longrightarrow> completed d = Inr False \<Longrightarrow>
   time_sleep env poll_interval = Some x \<Longrightarrow>
   monitor_loop env rid poll_interval max_wait elapsed k tr =
     Some (Raised x, tr @ [StatusQuery rid])"
  by (subst monitor_loop.simps) simp

lemma loop_again:
  "elapsed < max_wait \<Longrightarrow> sql_get_job_status env k rid = Inr d \<Longrightarrow> completed d = Inr False \<Longrightarrow>
   time_sleep env poll_interval = None \<Longrightarrow>
   monitor_loop env rid poll_interval max_wait elapsed k tr =
     monitor_loop env rid poll_interval max_wait (elapsed + poll_interval) (Suc k)
       (tr @ [StatusQuery rid, Sleep poll_interval])"
  by (subst monitor_loop.simps) simp

lemma status_queries_append: "status_queries (xs @ ys) = status_queries xs + status_queries ys"
  by (simp add: status_queries_def)

lemma sleeps_append: "sleeps (xs @ ys) = sleeps xs + sleeps ys"
  by (simp add: sleeps_def)


lemma rounds_step:
  assumes "0 < (p::int)" and "e < m"
  shows "nat ((m - e + p - 1) div p) = Suc (nat ((m - (e + p) + p - 1) div p))"
proof -
  have "(m - e + p - 1) div p = ((m - (e + p) + p - 1) + p) div p"
    by (simp add: algebra_simps)
  also have "\<dots> = (m - (e + p) + p - 1) div p + 1"
    by (rule div_add_self2) (use assms(1) in simp)
  finally have eq: "(m - e + p - 1) div p = (m - (e + p) + p - 1) div p + 1" .
  have "0 \<le> (m - (e + p) + p - 1) div p"
    using assms by (simp add: pos_imp_zdiv_nonneg_iff)
  with eq show ?thesis by simp
qed

lemma rounds_zero:
  assumes "0 < (p::int)" and "\<not> e < m"
  shows "nat ((m - e + p - 1) div p) = 0"
proof -
  have "(m - e + p - 1) div p \<le> (p - 1) div p"
    by (intro zdiv_mono1) (use assms in simp_all)
  also have "(p - 1) div p = 0"
    using assms(1) by simp
  finally show ?thesis by simp
qed

lemma loop_times_out:
  assumes "0 < poll_interval"
      and "\<forall>k. \<exists>d. sql_get_job_status env k rid = Inr d \<and> completed d = Inr False"
      and "time_sleep env poll_interval = None"
  shows "\<exists>tr'. monitor_loop env rid poll_interval max_wait elapsed k tr = Some (Returned None, tr')
           \<and> status_queries tr' =
               status_queries tr + nat ((max_wait - elapsed + poll_interval - 1) div poll_interval)
           \<and> sleeps tr' =
               sleeps tr + nat ((max_wait - elapsed + poll_interval - 1) div poll_interval)"
proof (induction "nat (max_wait - elapsed)" arbitrary: elapsed k tr rule: less_induct)
  case less
  show ?case
  proof (cases "elapsed < max_wait")
    case False
    then show ?thesis
      using assms(1) by (simp add: loop_over rounds_zero)
  next
    case True
    from assms(2) obtain d where d: "sql_get_job_status env k rid = Inr d"
      and c: "completed d = Inr False"
      by blast
    have m: "nat (max_wait - (elapsed + poll_interval)) < nat (max_wait - elapsed)"
      using assms(1) True by linarith
    from less [OF m, of "Suc k" "tr @ [StatusQuery rid, Sleep poll_interval]"]
    show ?thesis
      using True d c assms(1,3)
      by (simp add: loop_again rounds_step status_queries_append sleeps_append
            status_queries_def sleeps_def)
  qed
qed

lemma loop_returns_not_stuck:
  assumes "monitor_loop env rid poll_interval max_wait elapsed k tr = Some y"
  shows "\<not> (poll_interval = 0 \<and> elapsed < max_wait \<and> time_sleep env poll_interval = None
            \<and> (\<forall>k. \<exists>d. sql_get_job_status env k rid = Inr d \<and> completed d = Inr False))"
proof (rule monitor_loop.raw_induct
         [where P = "\<lambda>env rid p m e k tr y.
                       \<not> (p = 0 \<and> e < m \<and> time_sleep env p = None
                          \<and> (\<forall>k. \<exists>d. sql_get_job_status env k rid = Inr d
                                       \<and> completed d = Inr False))",
          OF _ assms])
  fix loop :: "notebook_env \<Rightarrow> json \<Rightarrow> int \<Rightarrow> int \<Rightarrow> int \<Rightarrow> nat \<Rightarrow> event list \<Rightarrow>
               (json option outcome \<times> event list) option"
  fix env rid p m e k tr y
  assume IH: "\<And>env rid p m e k tr y. loop env rid p m e k tr = Some y \<Longrightarrow>
                \<not> (p = 0 \<and> e < m \<and> time_sleep env p = None
                   \<and> (\<forall>k. \<exists>d. sql_get_job_status env k rid = Inr d \<and> completed d = Inr False))"
     and eq: "(if e < m
               then (case sql_get_job_status env k rid of
                       Inl x \<Rightarrow> Some (Raised x, tr @ [StatusQuery rid])
                     | Inr status_dict \<Rightarrow>
                         (case completed status_dict of
                            Inl x \<Rightarrow> Some (Raised x, tr @ [StatusQuery rid])
                          | Inr done \<Rightarrow>
                              if done then Some (Returned (Some status_dict), tr @ [StatusQuery rid])
                              else (case time_sleep env p of
                                      Some x \<Rightarrow> Some (Raised x, tr @ [StatusQuery rid])
                                    | None \<Rightarrow>
                                        loop env rid p m (e + p) (Suc k)
                                          (tr @ [StatusQuery rid, Sleep p]))))
               else Some (Returned None, tr)) = Some y"
  show "\<not> (p = 0 \<and> e < m \<and> time_sleep env p = None
            \<and> (\<forall>k. \<exists>d. sql_get_job_status env k rid = Inr d \<and> completed d = Inr False))"
  proof
    assume h: "p = 0 \<and> e < m \<and> time_sleep env p = None
           \<and> (\<forall>k. \<exists>d. sql_get_job_status env k rid = Inr d \<and> completed d = Inr False)"
    then obtain d where d: "sql_get_job_status env k rid = Inr d"
      and c: "completed d = Inr False"
      by blast
    from h have lt: "e < m" and sl: "time_sleep env p = None"
      by blast+
    from eq lt sl d c
    have "loop env rid p m (e + p) (Suc k) (tr @ [StatusQuery rid, Sleep p]) = Some y"
      by simp
    note ih = IH [OF this]
    from h have "p = 0" by blast
    with lt have "e + p < m" by simp
    with ih h show False by blast
  qed
qed

lemma loop_trace:
  assumes "monitor_loop env rid poll_interval max_wait elapsed k tr = Some y"
  shows "\<exists>rest. snd y = tr @ rest \<and> (elapsed < max_wait \<longrightarrow> (\<exists>r. rest = StatusQuery rid # r))"
proof (rule monitor_loop.raw_induct
         [where P = "\<lambda>env rid p m e k tr y.
                       \<exists>rest. snd y = tr @ rest \<and> (e < m \<longrightarrow> (\<exists>r. rest = StatusQuery rid # r))",
          OF _ assms])
  fix loop :: "notebook_env \<Rightarrow> json \<Rightarrow> int \<Rightarrow> int \<Rightarrow> int \<Rightarrow> nat \<Rightarrow> event list \<Rightarrow>
               (json option outcome \<times> event list) option"
  fix env rid p m e k tr y
  assume IH: "\<And>env rid p m e k tr y. loop env rid p m e k tr = Some y \<Longrightarrow>
                \<exists>rest. snd y = tr @ rest \<and> (e < m \<longrightarrow> (\<exists>r. rest = StatusQuery rid # r))"
     and eq: "(if e < m
               then (case sql_get_job_status env k rid of
                       Inl x \<Rightarrow> Some (Raised x, tr @ [StatusQuery rid])
                     | Inr status_dict \<Rightarrow>
                         (case completed status_dict of
                            Inl x \<Rightarrow> Some (Raised x, tr @ [StatusQuery rid])
                          | Inr done \<Rightarrow>
                              if done then Some (Returned (Some status_dict), tr @ [StatusQuery rid])
                              else (case time_sleep env p of
                                      Some x \<Rightarrow> Some (Raised x, tr @ [StatusQuery rid])
                                    | None \<Rightarrow>
                                        loop env rid p m (e + p) (Suc k)
                                          (tr @ [StatusQuery rid, Sleep p]))))
               else Some (Returned None, tr)) = Some y"
  show "\<exists>rest. snd y = tr @ rest \<and> (e < m \<longrightarrow> (\<exists>r. rest = StatusQuery rid # r))"
  proof (cases "\<exists>z. loop env rid p m (e + p) (Suc k) (tr @ [StatusQuery rid, Sleep p]) = Some y
                     \<and> e < m")
    case True
    then have "loop env rid p m (e + p) (Suc k) (tr @ [StatusQuery rid, Sleep p]) = Some y"
      by simp
    from IH [OF this] obtain rest where "snd y = (tr @ [StatusQuery rid, Sleep p]) @ rest"
      by blast
    then have "snd y = tr @ StatusQuery rid # Sleep p # rest"
      by simp
    then show ?thesis
      by blast
  next
    case False
    with eq show ?thesis
      by (auto split: if_splits sum.splits option.splits)
  qed
qed

lemma loop_never_returns:
  assumes "elapsed < max_wait" and "time_sleep env 0 = None"
      and "\<forall>k. \<exists>d. sql_get_job_status env k rid = Inr d \<and> completed d = Inr False"
  shows "monitor_loop env rid 0 max_wait elapsed k tr = None"
proof (rule ccontr)
  assume "monitor_loop env rid 0 max_wait elapsed k tr \<noteq> None"
  then obtain y where y: "monitor_loop env rid 0 max_wait elapsed k tr = Some y"
    by blast
  from loop_returns_not_stuck [OF y] assms show False by simp
qed

lemma trigger_and_monitor_job_started:
  assumes "sql_trigger env job_id
             (case notebook_params of None \<Rightarrow> None | Some d \<Rightarrow> if truthy d then Some d else None) =
             Inr result_dict"
      and "py_get result_dict ''success'' JNull = Inr ok" and "truthy ok"
      and "py_get result_dict ''run_id'' JNull = Inr rid"
  shows "trigger_and_monitor_job env job_id notebook_params poll_interval max_wait =
           monitor_loop env rid poll_interval max_wait 0 0
             [TriggerQuery job_id
                (case notebook_params of None \<Rightarrow> None | Some d \<Rightarrow> if truthy d then Some d else None)]"
  using assms by (simp add: trigger_and_monitor_job_def Let_def)

lemma done_first: "sql_get_job_status done_nb 0 (JInt 555) = Inr terminated_status"
  by (simp add: done_nb_def)

lemma terminated_completed: "completed terminated_status = Inr True"
  by (simp add: completed_def terminated_status_def terminal_states_def)

lemma running_completed: "completed running_status = Inr False"
  by (simp add: completed_def running_status_def terminal_states_def)

lemma flaky_first: "sql_get_job_status flaky_nb 0 (JInt 555) = Inr failed_query"
  by (simp add: flaky_nb_def)

lemma failed_success: "py_get failed_query ''success'' JNull = Inr (JBool False)"
  by (simp add: failed_query_def)

lemma flaky_second:
  "monitor_loop flaky_nb (JInt 555) 1 5 1 (Suc 0) [StatusQuery (JInt 555), Sleep 1] =
     Some (Returned (Some terminated_status),
           [StatusQuery (JInt 555), Sleep 1, StatusQuery (JInt 555)])"
  by (simp add: loop_done flaky_nb_def terminated_completed)

section \<open>An empty payload is an absent payload\<close>

text \<open>
  Claim C10. A payload given as the empty string is treated exactly like a payload
  that is not given: in each of the six positions the call with \<open>Some []\<close> has the
  outcome and the calls of the call with \<open>None\<close>, for every backend, job
  identifier and other arguments. So the empty text is never handed to
  \<^verbatim>\<open>json.loads\<close>, raises neither a format nor a shape error, and the start-run
  request carries \<open>None\<close> for it.
\<close>

theorem empty_payload_is_absent:
  "trigger_databricks_flow env job (Some []) py jar pl sq dbt tok =
     trigger_databricks_flow env job None py jar pl sq dbt tok
   \<and> trigger_databricks_flow env job nb (Some []) jar pl sq dbt tok =
     trigger_databricks_flow env job nb None jar pl sq dbt tok
   \<and> trigger_databricks_flow env job nb py (Some []) pl sq dbt tok =
     trigger_databricks_flow env job nb py None pl sq dbt tok
   \<and> trigger_databricks_flow env job nb py jar (Some []) sq dbt tok =
     trigger_databricks_flow env job nb py jar None sq dbt tok
   \<and> trigger_databricks_flow env job nb py jar pl (Some []) dbt tok =
     trigger_databricks_flow env job nb py jar pl None dbt tok
   \<and> trigger_databricks_flow env job nb py jar pl sq (Some []) tok =
     trigger_databricks_flow env job nb py jar pl sq None tok"
  unfolding trigger_databricks_flow_def parse_parameters_def parse_payload_empty
  by simp

theorem empty_payload_is_absent_witness:
  "trigger_databricks_flow demo_env (Some ''123456789'') (Some []) None None None None None None =
     (Returned
        (JObj [(''success'', JBool True), (''run_id'', JInt 555), (''number_in_job'', JInt 1),
               (''job_id'', JStr ''123456789''),
               (''state'', JObj [(''life_cycle_state'', JStr ''PENDING''),
                                 (''state_message'', JStr [])]),
               (''run_page_url'', JStr ''https://example.test/run/555''),
               (''start_time'', JInt 1700000000000),
               (''message'', JStr ''Successfully triggered job 123456789. Run ID: 555'')]),
      [WorkspaceClient,
       RunNow \<lparr> rq_job_id = 123456789, rq_notebook_params = None, rq_python_params = None,
                rq_jar_params = None, rq_pipeline_params = None, rq_sql_params = None,
                rq_dbt_commands = None, rq_idempotency_token = None \<rparr>,
       GetRun (Some 555)])"
  using empty_payload_is_absent [of demo_env "Some ''123456789''" None None None None None None None]
  by (simp add: demo_plain_run)

section \<open>Remote failures are returned\<close>

text \<open>
  Claim C1. Take a call whose job identifier is not blank, for which the client is
  constructed and the six payloads parse. Then the call returns (it does not raise),
  and whenever the start-run call fails with \<open>e\<close>, or the start-run call succeeds
  and the get-run call fails with \<open>e\<close>, the value returned is the failure object:
  \<open>success\<close> false, the job identifier, \<open>error\<close> the message of \<open>e\<close>,
  \<open>error_type\<close> the type name of \<open>e\<close>, and the message
  \<open>Failed to trigger job <id>: <error>\<close>.
\<close>

theorem remote_failure_is_returned:
  assumes "strip j \<noteq> []" and "client_init env = None"
      and "parse_parameters env nb py jar pl sq dbt = (Inr ps, tr)"
  shows "(\<exists>r. fst (trigger_databricks_flow env (Some j) nb py jar pl sq dbt tok) = Returned r)
       \<and> (\<forall>n e. int_of_str env j = Inr n \<longrightarrow>
              (run_now env (run_now_args n ps tok) = Inl e
               \<or> (\<exists>resp. run_now env (run_now_args n ps tok) = Inr resp
                          \<and> get_run env (run_id resp) = Inl e)) \<longrightarrow>
              fst (trigger_databricks_flow env (Some j) nb py jar pl sq dbt tok) =
                Returned (JObj [(''success'', JBool False),
                                (''job_id'', JStr j),
                                (''error'', JStr (exn_msg e)),
                                (''error_type'', JStr (exn_type e)),
                                (''message'', JStr (''Failed to trigger job '' @ j @ '': '' @
                                                    exn_msg e))]))"
proof (intro conjI allI impI)
  show "\<exists>r. fst (trigger_databricks_flow env (Some j) nb py jar pl sq dbt tok) = Returned r"
    by (simp add: trigger_valid [OF assms])
next
  fix n e
  assume n: "int_of_str env j = Inr n"
     and f: "run_now env (run_now_args n ps tok) = Inl e
             \<or> (\<exists>resp. run_now env (run_now_args n ps tok) = Inr resp
                        \<and> get_run env (run_id resp) = Inl e)"
  from f have "fst (try_except env j ps tok) = error_result j e"
    using n by (auto simp: try_except_run_now_fails try_except_get_run_fails)
  then show "fst (trigger_databricks_flow env (Some j) nb py jar pl sq dbt tok) =
                Returned (JObj [(''success'', JBool False),
                                (''job_id'', JStr j),
                                (''error'', JStr (exn_msg e)),
                                (''error_type'', JStr (exn_type e)),
                                (''message'', JStr (''Failed to trigger job '' @ j @ '': '' @
                                                    exn_msg e))])"
    by (simp add: trigger_valid [OF assms] error_result_def)
qed

theorem remote_failure_is_returned_witness:
  "fst (trigger_databricks_flow failing_env (Some ''123456789'') None None None None None None None) =
     Returned (JObj [(''success'', JBool False),
                     (''job_id'', JStr ''123456789''),
                     (''error'', JStr ''Job 123456789 does not exist.''),
                     (''error_type'', JStr ''ResourceDoesNotExist''),
                     (''message'',
                      JStr ''Failed to trigger job 123456789: Job 123456789 does not exist.'')])"
proof -
  have a: "strip ''123456789'' \<noteq> []"
    by (simp add: strip_job)
  have b: "client_init failing_env = None"
    by (simp add: failing_env_def demo_env_def)
  have c: "int_of_str failing_env ''123456789'' = Inr 123456789"
    by (simp add: failing_env_def demo_env_def demo_int_def)
  have d: "\<And>rq. run_now failing_env rq = Inl no_such_job"
    by (simp add: failing_env_def)
  from remote_failure_is_returned [OF a b failing_parse, of None] c d
  show ?thesis
    by (simp add: no_such_job_def)
qed

section \<open>Job identifiers that are blank or not numeric\<close>

text \<open>
  Claim C2 as stated fails: a job identifier that is not numeric does not raise the
  error of the blank identifier. The conversion \<^verbatim>\<open>int(job_id)\<close> is inside the
  \<^verbatim>\<open>try\<close>, so its \<^verbatim>\<open>ValueError\<close> comes back as a returned failure object,
  after the client was constructed; the empty identifier raises.
\<close>

theorem non_numeric_job_id_counterexample:
  "trigger_databricks_flow demo_env (Some ''abc'') None None None None None None None =
       (Returned (JObj [(''success'', JBool False),
                        (''job_id'', JStr ''abc''),
                        (''error'', JStr (''invalid literal for int() with base 10: '' @
                                          [CHR 0x27] @ ''abc'' @ [CHR 0x27])),
                        (''error_type'', JStr ''ValueError''),
                        (''message'', JStr (''Failed to trigger job abc: '' @
                                            ''invalid literal for int() with base 10: '' @
                                            [CHR 0x27] @ ''abc'' @ [CHR 0x27]))]),
        [WorkspaceClient])
   \<and> fst (trigger_databricks_flow demo_env (Some ''abc'') None None None None None None None) \<noteq>
       Raised (Exn ''ValueError'' ''job_id is required and cannot be empty'')
   \<and> fst (trigger_databricks_flow demo_env (Some []) None None None None None None None) =
       Raised (Exn ''ValueError'' ''job_id is required and cannot be empty'')"
  by code_simp

text \<open>
  Claim C2, amended. A job identifier that is \<^verbatim>\<open>None\<close>, empty or all white
  space raises \<^verbatim>\<open>ValueError("job_id is required and cannot be empty")\<close> before
  any call at all. A job identifier that is not blank and that \<^verbatim>\<open>int()\<close>
  rejects with \<open>e\<close> (the client constructed, the payloads valid) does not raise:
  the failure object for \<open>e\<close> is returned, and no remote call is made.
\<close>

theorem invalid_job_id:
  "((job = None \<or> (\<exists>j. job = Some j \<and> (\<forall>c \<in> set j. isspace c))) \<longrightarrow>
      trigger_databricks_flow env job nb py jar pl sq dbt tok =
        (Raised (Exn ''ValueError'' ''job_id is required and cannot be empty''), []))
   \<and> (\<forall>j ps tr e.
         strip j \<noteq> [] \<and> client_init env = None
         \<and> parse_parameters env nb py jar pl sq dbt = (Inr ps, tr)
         \<and> int_of_str env j = Inl e \<longrightarrow>
         trigger_databricks_flow env (Some j) nb py jar pl sq dbt tok =
           (Returned (JObj [(''success'', JBool False),
                            (''job_id'', JStr j),
                            (''error'', JStr (exn_msg e)),
                            (''error_type'', JStr (exn_type e)),
                            (''message'', JStr (''Failed to trigger job '' @ j @ '': '' @
                                                exn_msg e))]),
            WorkspaceClient # tr)
         \<and> remote_calls (WorkspaceClient # tr) = [])"
proof (intro conjI allI impI)
  assume "job = None \<or> (\<exists>j. job = Some j \<and> (\<forall>c \<in> set j. isspace c))"
  then show "trigger_databricks_flow env job nb py jar pl sq dbt tok =
        (Raised (Exn ''ValueError'' ''job_id is required and cannot be empty''), [])"
    by (simp add: trigger_blank job_id_error_def)
next
  fix j ps tr e
  assume h: "strip j \<noteq> [] \<and> client_init env = None
         \<and> parse_parameters env nb py jar pl sq dbt = (Inr ps, tr)
         \<and> int_of_str env j = Inl e"
  then have v: "strip j \<noteq> []" "client_init env = None"
      "parse_parameters env nb py jar pl sq dbt = (Inr ps, tr)" and i: "int_of_str env j = Inl e"
    by simp_all
  show "trigger_databricks_flow env (Some j) nb py jar pl sq dbt tok =
           (Returned (JObj [(''success'', JBool False),
                            (''job_id'', JStr j),
                            (''error'', JStr (exn_msg e)),
                            (''error_type'', JStr (exn_type e)),
                            (''message'', JStr (''Failed to trigger job '' @ j @ '': '' @
                                                exn_msg e))]),
            WorkspaceClient # tr)"
    by (simp add: trigger_valid [OF v] try_except_int_fails [OF i] error_result_def)
  have "remote_calls tr = []"
    using remote_parse_parameters [of env nb py jar pl sq dbt] v(3) by simp
  then show "remote_calls (WorkspaceClient # tr) = []"
    by (simp add: remote_calls_def)
qed

theorem invalid_job_id_witness:
  "trigger_databricks_flow demo_env (Some [CHR '' '', CHR 0x09]) None None None None None None None =
     (Raised (Exn ''ValueError'' ''job_id is required and cannot be empty''), [])
   \<and> trigger_databricks_flow demo_env (Some ''abc'') None None None None None None None =
       (Returned (JObj [(''success'', JBool False),
                        (''job_id'', JStr ''abc''),
                        (''error'', JStr (''invalid literal for int() with base 10: '' @
                                          [CHR 0x27] @ ''abc'' @ [CHR 0x27])),
                        (''error_type'', JStr ''ValueError''),
                        (''message'', JStr (''Failed to trigger job abc: '' @
                                            ''invalid literal for int() with base 10: '' @
                                            [CHR 0x27] @ ''abc'' @ [CHR 0x27]))]),
        [WorkspaceClient])"
proof -
  have a: "strip ''abc'' \<noteq> []"
    by (simp add: strip_abc)
  have b: "client_init demo_env = None"
    by (simp add: demo_env_def)
  have c: "int_of_str demo_env ''abc'' =
             Inl (Exn ''ValueError'' (''invalid literal for int() with base 10: '' @
                                      [CHR 0x27] @ ''abc'' @ [CHR 0x27]))"
    by (simp add: demo_env_def demo_int_def)
  from invalid_job_id [of "Some [CHR '' '', CHR 0x09]" demo_env None None None None None None None]
       blank_is_space
  have 1: "trigger_databricks_flow demo_env (Some [CHR '' '', CHR 0x09]) None None None None None None None =
     (Raised (Exn ''ValueError'' ''job_id is required and cannot be empty''), [])"
    by simp
  from invalid_job_id [of "Some ''abc''" demo_env None None None None None None None]
       a b c demo_parse
  have 2: "trigger_databricks_flow demo_env (Some ''abc'') None None None None None None None =
       (Returned (JObj [(''success'', JBool False),
                        (''job_id'', JStr ''abc''),
                        (''error'', JStr (''invalid literal for int() with base 10: '' @
                                          [CHR 0x27] @ ''abc'' @ [CHR 0x27])),
                        (''error_type'', JStr ''ValueError''),
                        (''message'', JStr (''Failed to trigger job abc: '' @
                                            ''invalid literal for int() with base 10: '' @
                                            [CHR 0x27] @ ''abc'' @ [CHR 0x27]))]),
        [WorkspaceClient])"
    by simp
  from 1 2 show ?thesis by simp
qed

section \<open>A successful call is one start-run and one get-run\<close>

text \<open>
  Claim C4. A call succeeds in exactly one way. When the job identifier is not
  blank, the client is constructed, the payloads parse, \<^verbatim>\<open>int()\<close> converts the
  identifier, the start-run call and the get-run call for the run identifier it
  returned both succeed, \<^verbatim>\<open>number_in_job\<close> can be read and a state that is there
  has a life cycle state, then the call makes exactly these two remote calls, the
  start-run first, and returns the object with the fields \<open>success\<close> (true),
  \<open>run_id\<close>, \<open>number_in_job\<close>, \<open>job_id\<close>, \<open>state\<close> (with
  \<open>life_cycle_state\<close> and \<open>state_message\<close>), \<open>run_page_url\<close>,
  \<open>start_time\<close> and \<open>message\<close>, filled from the two responses. Conversely,
  every call that returns an object whose \<open>success\<close> is true made exactly one
  start-run call followed by one get-run call for the returned run identifier, both
  succeeded, and the object is the one above.
\<close>

theorem success_is_two_calls:
  "(\<forall>j ps trp n resp details num.
      job = Some j \<and> strip j \<noteq> [] \<and> client_init env = None
      \<and> parse_parameters env nb py jar pl sq dbt = (Inr ps, trp)
      \<and> int_of_str env j = Inr n
      \<and> run_now env (run_now_args n ps tok) = Inr resp
      \<and> get_run env (run_id resp) = Inr details
      \<and> number_in_job resp = Inr num
      \<and> (\<forall>st. state details = Some st \<longrightarrow> life_cycle_state st \<noteq> None) \<longrightarrow>
      trigger_databricks_flow env job nb py jar pl sq dbt tok =
        (Returned
           (JObj [(''success'', JBool True),
               (''run_id'', opt_int (run_id resp)),
               (''number_in_job'', opt_int num),
               (''job_id'', JStr j),
               (''state'',
                JObj [(''life_cycle_state'',
                       case state details of
                         None \<Rightarrow> JNull | Some st \<Rightarrow> opt_str (life_cycle_state st)),
                      (''state_message'',
                       case state details of
                         None \<Rightarrow> JNull | Some st \<Rightarrow> opt_str (state_message st))]),
               (''run_page_url'', opt_str (run_page_url details)),
               (''start_time'', opt_int (start_time details)),
               (''message'', JStr (''Successfully triggered job '' @ j @ ''. Run ID: '' @
                                   fmt_opt_int (run_id resp)))]),
         WorkspaceClient # trp @ [RunNow (run_now_args n ps tok), GetRun (run_id resp)])
      \<and> remote_calls (WorkspaceClient # trp @ [RunNow (run_now_args n ps tok), GetRun (run_id resp)]) =
          [RunNow (run_now_args n ps tok), GetRun (run_id resp)])
   \<and> (\<forall>kv tr.
        trigger_databricks_flow env job nb py jar pl sq dbt tok = (Returned (JObj kv), tr)
        \<and> map_of kv ''success'' = Some (JBool True) \<longrightarrow>
        (\<exists>j n ps resp details num.
           job = Some j
         \<and> fst (parse_parameters env nb py jar pl sq dbt) = Inr ps
         \<and> int_of_str env j = Inr n
         \<and> run_now env (run_now_args n ps tok) = Inr resp
         \<and> get_run env (run_id resp) = Inr details
         \<and> number_in_job resp = Inr num
         \<and> remote_calls tr = [RunNow (run_now_args n ps tok), GetRun (run_id resp)]
         \<and> kv = [(''success'', JBool True),
               (''run_id'', opt_int (run_id resp)),
               (''number_in_job'', opt_int num),
               (''job_id'', JStr j),
               (''state'',
                JObj [(''life_cycle_state'',
                       case state details of
                         None \<Rightarrow> JNull | Some st \<Rightarrow> opt_str (life_cycle_state st)),
                      (''state_message'',
                       case state details of
                         None \<Rightarrow> JNull | Some st \<Rightarrow> opt_str (state_message st))]),
               (''run_page_url'', opt_str (run_page_url details)),
               (''start_time'', opt_int (start_time details)),
               (''message'', JStr (''Successfully triggered job '' @ j @ ''. Run ID: '' @
                                   fmt_opt_int (run_id resp)))]))"
proof (intro conjI allI impI)
  fix j ps trp n resp details num
  assume h: "job = Some j \<and> strip j \<noteq> [] \<and> client_init env = None
      \<and> parse_parameters env nb py jar pl sq dbt = (Inr ps, trp)
      \<and> int_of_str env j = Inr n
      \<and> run_now env (run_now_args n ps tok) = Inr resp
      \<and> get_run env (run_id resp) = Inr details
      \<and> number_in_job resp = Inr num
      \<and> (\<forall>st. state details = Some st \<longrightarrow> life_cycle_state st \<noteq> None)"
  then have j: "job = Some j" and v: "strip j \<noteq> []" "client_init env = None"
      "parse_parameters env nb py jar pl sq dbt = (Inr ps, trp)"
    and b: "int_of_str env j = Inr n" "run_now env (run_now_args n ps tok) = Inr resp"
      "get_run env (run_id resp) = Inr details" "number_in_job resp = Inr num"
      "\<forall>st. state details = Some st \<longrightarrow> life_cycle_state st \<noteq> None"
    by blast+
  show "trigger_databricks_flow env job nb py jar pl sq dbt tok =
        (Returned
           (JObj [(''success'', JBool True),
               (''run_id'', opt_int (run_id resp)),
               (''number_in_job'', opt_int num),
               (''job_id'', JStr j),
               (''state'',
                JObj [(''life_cycle_state'',
                       case state details of
                         None \<Rightarrow> JNull | Some st \<Rightarrow> opt_str (life_cycle_state st)),
                      (''state_message'',
                       case state details of
                         None \<Rightarrow> JNull | Some st \<Rightarrow> opt_str (state_message st))]),
               (''run_page_url'', opt_str (run_page_url details)),
               (''start_time'', opt_int (start_time details)),
               (''message'', JStr (''Successfully triggered job '' @ j @ ''. Run ID: '' @
                                   fmt_opt_int (run_id resp)))]),
         WorkspaceClient # trp @ [RunNow (run_now_args n ps tok), GetRun (run_id resp)])"
    unfolding j
    by (simp add: trigger_valid [OF v] try_except_def try_body_success [OF b] success_result_def)
  have "remote_calls trp = []"
    using remote_parse_parameters [of env nb py jar pl sq dbt] v(3) by simp
  then show "remote_calls (WorkspaceClient # trp @ [RunNow (run_now_args n ps tok), GetRun (run_id resp)]) =
          [RunNow (run_now_args n ps tok), GetRun (run_id resp)]"
    by (simp add: remote_calls_def)
next
  fix kv tr
  assume a: "trigger_databricks_flow env job nb py jar pl sq dbt tok = (Returned (JObj kv), tr)
        \<and> map_of kv ''success'' = Some (JBool True)"
  then have a1: "trigger_databricks_flow env job nb py jar pl sq dbt tok = (Returned (JObj kv), tr)"
    and a2: "map_of kv ''success'' = Some (JBool True)"
    by blast+
  from trigger_Returned [OF a1] obtain j ps trp where
    j: "job = Some j" and pp: "parse_parameters env nb py jar pl sq dbt = (Inr ps, trp)"
    and r: "JObj kv = fst (try_except env j ps tok)"
    and tr: "tr = WorkspaceClient # trp @ snd (try_except env j ps tok)"
    by blast
  from r have te: "try_except env j ps tok = (JObj kv, snd (try_except env j ps tok))"
    by (metis prod.collapse)
  from try_except_success [OF te a2]
  have tb: "try_body env j ps tok = (Inr (JObj kv), snd (try_except env j ps tok))" .
  from try_body_Inr [OF tb] obtain n resp details num where
    n: "int_of_str env j = Inr n"
    and rn: "run_now env (run_now_args n ps tok) = Inr resp"
    and gr: "get_run env (run_id resp) = Inr details"
    and nj: "number_in_job resp = Inr num"
    and tr': "snd (try_except env j ps tok) = [RunNow (run_now_args n ps tok), GetRun (run_id resp)]"
    and kv: "JObj kv = success_result j resp num details
                 (case state details of None \<Rightarrow> JNull | Some st \<Rightarrow> opt_str (life_cycle_state st))
                 (case state details of None \<Rightarrow> JNull | Some st \<Rightarrow> opt_str (state_message st))"
    by blast
  have "remote_calls trp = []"
    using remote_parse_parameters [of env nb py jar pl sq dbt] pp by simp
  then have rc: "remote_calls tr = [RunNow (run_now_args n ps tok), GetRun (run_id resp)]"
    by (simp add: tr tr' remote_calls_def)
  from kv have kv': "kv = [(''success'', JBool True),
               (''run_id'', opt_int (run_id resp)),
               (''number_in_job'', opt_int num),
               (''job_id'', JStr j),
               (''state'',
                JObj [(''life_cycle_state'',
                       case state details of
                         None \<Rightarrow> JNull | Some st \<Rightarrow> opt_str (life_cycle_state st)),
                      (''state_message'',
                       case state details of
                         None \<Rightarrow> JNull | Some st \<Rightarrow> opt_str (state_message st))]),
               (''run_page_url'', opt_str (run_page_url details)),
               (''start_time'', opt_int (start_time details)),
               (''message'', JStr (''Successfully triggered job '' @ j @ ''. Run ID: '' @
                                   fmt_opt_int (run_id resp)))]"
    by (simp add: success_result_def)
  from j pp n rn gr nj rc kv'
  show "\<exists>j n ps resp details num.
           job = Some j
         \<and> fst (parse_parameters env nb py jar pl sq dbt) = Inr ps
         \<and> int_of_str env j = Inr n
         \<and> run_now env (run_now_args n ps tok) = Inr resp
         \<and> get_run env (run_id resp) = Inr details
         \<and> number_in_job resp = Inr num
         \<and> remote_calls tr = [RunNow (run_now_args n ps tok), GetRun (run_id resp)]
         \<and> kv = [(''success'', JBool True),
               (''run_id'', opt_int (run_id resp)),
               (''number_in_job'', opt_int num),
               (''job_id'', JStr j),
               (''state'',
                JObj [(''life_cycle_state'',
                       case state details of
                         None \<Rightarrow> JNull | Some st \<Rightarrow> opt_str (life_cycle_state st)),
                      (''state_message'',
                       case state details of
                         None \<Rightarrow> JNull | Some st \<Rightarrow> opt_str (state_message st))]),
               (''run_page_url'', opt_str (run_page_url details)),
               (''start_time'', opt_int (start_time details)),
               (''message'', JStr (''Successfully triggered job '' @ j @ ''. Run ID: '' @
                                   fmt_opt_int (run_id resp)))]"
    by (intro exI [of _ j] exI [of _ n] exI [of _ ps] exI [of _ resp] exI [of _ details]
          exI [of _ num]) simp
qed

theorem success_is_two_calls_witness:
  "trigger_databricks_flow demo_env (Some ''123456789'') None None None None None None None =
     (Returned
        (JObj [(''success'', JBool True), (''run_id'', JInt 555), (''number_in_job'', JInt 1),
               (''job_id'', JStr ''123456789''),
               (''state'', JObj [(''life_cycle_state'', JStr ''PENDING''),
                                 (''state_message'', JStr [])]),
               (''run_page_url'', JStr ''https://example.test/run/555''),
               (''start_time'', JInt 1700000000000),
               (''message'', JStr ''Successfully triggered job 123456789. Run ID: 555'')]),
      [WorkspaceClient,
       RunNow \<lparr> rq_job_id = 123456789, rq_notebook_params = None, rq_python_params = None,
                rq_jar_params = None, rq_pipeline_params = None, rq_sql_params = None,
                rq_dbt_commands = None, rq_idempotency_token = None \<rparr>,
       GetRun (Some 555)])
   \<and> (\<exists>j n ps resp details num.
         Some ''123456789'' = Some j
       \<and> fst (parse_parameters demo_env None None None None None None) = Inr ps
       \<and> int_of_str demo_env j = Inr n
       \<and> run_now demo_env (run_now_args n ps None) = Inr resp
       \<and> get_run demo_env (run_id resp) = Inr details
       \<and> number_in_job resp = Inr num
       \<and> remote_calls
           [WorkspaceClient,
            RunNow \<lparr> rq_job_id = 123456789, rq_notebook_params = None, rq_python_params = None,
                     rq_jar_params = None, rq_pipeline_params = None, rq_sql_params = None,
                     rq_dbt_commands = None, rq_idempotency_token = None \<rparr>,
            GetRun (Some 555)] =
           [RunNow (run_now_args n ps None), GetRun (run_id resp)])"
proof -
  note inst = success_is_two_calls
    [of "Some ''123456789''" demo_env None None None None None None None]
  have fmt: "fmt_opt_int (Some 555) = ''555''"
    by code_simp
  have p1: "strip ''123456789'' \<noteq> []"
    by (simp add: strip_job)
  have p2: "client_init demo_env = None"
    by (simp add: demo_env_def)
  have p3: "int_of_str demo_env ''123456789'' = Inr 123456789"
    by (simp add: demo_env_def demo_int_def)
  have p4: "\<And>rq. run_now demo_env rq = Inr \<lparr> run_id = Some 555, number_in_job = Inr (Some 1) \<rparr>"
    by (simp add: demo_env_def)
  have p5: "\<And>r. get_run demo_env r = Inr demo_run"
    by (simp add: demo_env_def)
  have p6: "number_in_job \<lparr> run_id = Some 555, number_in_job = Inr (Some 1) \<rparr> = Inr (Some 1)"
    by simp
  have p7: "\<forall>st. state demo_run = Some st \<longrightarrow> life_cycle_state st \<noteq> None"
    by (auto simp: demo_run_def)
  have pre: "Some ''123456789'' = Some ''123456789'' \<and> strip ''123456789'' \<noteq> []
      \<and> client_init demo_env = None
      \<and> parse_parameters demo_env None None None None None None =
          (Inr \<lparr> parsed_notebook_params = None, parsed_python_params = None,
                 parsed_jar_params = None, parsed_pipeline_params = None,
                 parsed_sql_params = None, parsed_dbt_commands = None \<rparr>, [])
      \<and> int_of_str demo_env ''123456789'' = Inr 123456789
      \<and> run_now demo_env
           (run_now_args 123456789
              \<lparr> parsed_notebook_params = None, parsed_python_params = None,
                parsed_jar_params = None, parsed_pipeline_params = None,
                parsed_sql_params = None, parsed_dbt_commands = None \<rparr> None) =
          Inr \<lparr> run_id = Some 555, number_in_job = Inr (Some 1) \<rparr>
      \<and> get_run demo_env (run_id \<lparr> run_id = Some 555, number_in_job = Inr (Some 1) \<rparr>) =
          Inr demo_run
      \<and> number_in_job \<lparr> run_id = Some 555, number_in_job = Inr (Some 1) \<rparr> = Inr (Some 1)
      \<and> (\<forall>st. state demo_run = Some st \<longrightarrow> life_cycle_state st \<noteq> None)"
    by (intro conjI p1 p2 p3 p4 p5 p6 p7 demo_parse) simp
  from inst [THEN conjunct1, rule_format, OF pre]
  have 1: "trigger_databricks_flow demo_env (Some ''123456789'') None None None None None None None =
     (Returned
        (JObj [(''success'', JBool True), (''run_id'', JInt 555), (''number_in_job'', JInt 1),
               (''job_id'', JStr ''123456789''),
               (''state'', JObj [(''life_cycle_state'', JStr ''PENDING''),
                                 (''state_message'', JStr [])]),
               (''run_page_url'', JStr ''https://example.test/run/555''),
               (''start_time'', JInt 1700000000000),
               (''message'', JStr ''Successfully triggered job 123456789. Run ID: 555'')]),
      [WorkspaceClient,
       RunNow \<lparr> rq_job_id = 123456789, rq_notebook_params = None, rq_python_params = None,
                rq_jar_params = None, rq_pipeline_params = None, rq_sql_params = None,
                rq_dbt_commands = None, rq_idempotency_token = None \<rparr>,
       GetRun (Some 555)])"
    by (simp add: fmt run_now_args_def opt_int_def opt_str_def demo_run_def)
  have s: "map_of [(''success'', JBool True), (''run_id'', JInt 555), (''number_in_job'', JInt 1),
               (''job_id'', JStr ''123456789''),
               (''state'', JObj [(''life_cycle_state'', JStr ''PENDING''),
                                 (''state_message'', JStr [])]),
               (''run_page_url'', JStr ''https://example.test/run/555''),
               (''start_time'', JInt 1700000000000),
               (''message'', JStr ''Successfully triggered job 123456789. Run ID: 555'')]
             ''success'' = Some (JBool True)"
    by simp
  from inst [THEN conjunct2, rule_format, OF conjI [OF 1 s]]
  have 2: "\<exists>j n ps resp details num.
         Some ''123456789'' = Some j
       \<and> fst (parse_parameters demo_env None None None None None None) = Inr ps
       \<and> int_of_str demo_env j = Inr n
       \<and> run_now demo_env (run_now_args n ps None) = Inr resp
       \<and> get_run demo_env (run_id resp) = Inr details
       \<and> number_in_job resp = Inr num
       \<and> remote_calls
           [WorkspaceClient,
            RunNow \<lparr> rq_job_id = 123456789, rq_notebook_params = None, rq_python_params = None,
                     rq_jar_params = None, rq_pipeline_params = None, rq_sql_params = None,
                     rq_dbt_commands = None, rq_idempotency_token = None \<rparr>,
            GetRun (Some 555)] =
           [RunNow (run_now_args n ps None), GetRun (run_id resp)]"
    by blast
  from 1 2 show ?thesis
    by blast
qed

section \<open>Payloads of the wrong shape\<close>

text \<open>
  Claim C3 as stated fails in one part: the error names the payload and the shape
  that was expected, and says nothing of the shape that was given. A JSON array and
  a JSON number given as \<^verbatim>\<open>notebook_params\<close> raise the same exception.
\<close>

theorem actual_shape_counterexample:
  "fst (trigger_databricks_flow demo_env (Some ''123456789'') (Some ''[]'') None None None None
          None None) =
     Raised (Exn ''ValueError'' ''notebook_params must be a JSON object (dictionary)'')
   \<and> fst (trigger_databricks_flow demo_env (Some ''123456789'') (Some ''7'') None None None None
            None None) =
     Raised (Exn ''ValueError'' ''notebook_params must be a JSON object (dictionary)'')
   \<and> json_loads demo_env ''[]'' = Inr (JArr [])
   \<and> json_loads demo_env ''7'' = Inr (JInt 7)"
  by code_simp

text \<open>
  Claim C3, amended. For a call with a job identifier that is not blank and a
  constructed client: when the payloads before payload \<open>k\<close> (in the order
  notebook, python, jar, pipeline, sql, dbt) are valid and payload \<open>k\<close> is a
  non-empty text that decodes to a value not of its expected shape, the call raises
  \<^verbatim>\<open>ValueError\<close> with the message \<open><name> must be a JSON <expected shape>\<close>,
  which names the payload and the expected shape only, and no remote call is made:
  the calls are the construction of the client and the decoding of the payloads up
  to \<open>k\<close>.
\<close>

theorem wrong_shape_is_rejected:
  assumes "strip j \<noteq> []" and "client_init env = None" and "k < 6"
      and "\<forall>i<k. valid_payload env (payload_shapes ! i) ([nb, py, jar, pl, sq, dbt] ! i)"
      and "[nb, py, jar, pl, sq, dbt] ! k = Some s" and "s \<noteq> []"
      and "json_loads env s = Inr v" and "\<not> has_shape (payload_shapes ! k) v"
  shows "trigger_databricks_flow env (Some j) nb py jar pl sq dbt tok =
           (Raised (Exn ''ValueError''
                      (payload_names ! k @ '' must be a JSON '' @ shape_text (payload_shapes ! k))),
            WorkspaceClient # decoded (take (Suc k) [nb, py, jar, pl, sq, dbt]))
       \<and> remote_calls (WorkspaceClient # decoded (take (Suc k) [nb, py, jar, pl, sq, dbt])) = []"
proof -
  have bad: "\<not> valid_payload env (payload_shapes ! k) ([nb, py, jar, pl, sq, dbt] ! k)"
    unfolding assms(5) by (rule wrong_shape_invalid [OF assms(6,7,8)])
  have "parse_parameters env nb py jar pl sq dbt =
          (Inl (Exn ''ValueError''
                  (payload_names ! k @ '' must be a JSON '' @ shape_text (payload_shapes ! k))),
           decoded (take (Suc k) [nb, py, jar, pl, sq, dbt]))"
    unfolding parse_parameters_first_error [OF assms(3,4) bad] assms(5)
    by (simp add: parse_payload_shape_error [OF assms(6,7,8)])
  then show ?thesis
    by (simp add: trigger_invalid_parameters [OF assms(1,2)] remote_decoded)
qed

theorem wrong_shape_is_rejected_witness:
  "trigger_databricks_flow demo_env (Some ''123456789'') (Some ''{}'') (Some ''[1]'') None
       (Some ''[]'') (Some ''7'') None None =
     (Raised (Exn ''ValueError'' ''pipeline_params must be a JSON object (dictionary)''),
      [WorkspaceClient, JsonLoads ''{}'', JsonLoads ''[1]'', JsonLoads ''[]''])"
proof -
  have a: "strip ''123456789'' \<noteq> []"
    by (simp add: strip_job)
  have b: "client_init demo_env = None"
    by (simp add: demo_env_def)
  have c: "(3::nat) < 6"
    by simp
  have d: "\<forall>i<3. valid_payload demo_env (payload_shapes ! i)
                    ([Some ''{}'', Some ''[1]'', None, Some ''[]'', Some ''7'', None] ! i)"
    by (simp add: eval_nat_numeral All_less_Suc valid_payload_def payload_shapes_def
          demo_env_def demo_loads_def)
  have e: "[Some ''{}'', Some ''[1]'', None, Some ''[]'', Some ''7'', None] ! 3 = Some ''[]''"
    by (simp add: eval_nat_numeral)
  have f: "''[]'' \<noteq> []"
    by simp
  have g: "json_loads demo_env ''[]'' = Inr (JArr [])"
    by (simp add: demo_env_def demo_loads_def)
  have h: "\<not> has_shape (payload_shapes ! 3) (JArr [])"
    by (simp add: payload_shapes_def eval_nat_numeral)
  from wrong_shape_is_rejected [OF a b c d e f g h, of None] show ?thesis
    by (simp add: payload_names_def payload_shapes_def decoded_def eval_nat_numeral)
qed

section \<open>The first violation ends the normalization\<close>

text \<open>
  Claim C9 as stated fails in one part: when the first invalid payload does not
  decode, the error does not name it. The same exception is raised whether the text
  that does not decode is \<^verbatim>\<open>notebook_params\<close> or \<^verbatim>\<open>python_params\<close>, and
  its message does not contain the payload's name.
\<close>

theorem unnamed_payload_counterexample:
  "trigger_databricks_flow demo_env (Some ''123456789'') (Some ''oops'') None None None None
       None None =
     (Raised (Exn ''ValueError''
                ''Invalid JSON in parameters: Expecting value: line 1 column 1 (char 0)''),
      [WorkspaceClient, JsonLoads ''oops''])
   \<and> fst (trigger_databricks_flow demo_env (Some ''123456789'') None (Some ''oops'') None None
            None None None) =
       Raised (Exn ''ValueError''
                 ''Invalid JSON in parameters: Expecting value: line 1 column 1 (char 0)'')
   \<and> \<not> sublist ''notebook_params''
          ''Invalid JSON in parameters: Expecting value: line 1 column 1 (char 0)''"
  by code_simp

text \<open>
  Claim C9, amended. The six payloads are checked in the order notebook, python,
  jar, pipeline, sql, dbt, and the first violation ends the check: when payload
  \<open>k\<close> is the first invalid one, an error \<open>e\<close> for payload \<open>k\<close> is raised and
  only the payloads up to \<open>k\<close> are decoded, no later one. When payload \<open>k\<close>
  decodes to a value of the wrong shape, \<open>e\<close> is the \<^verbatim>\<open>ValueError\<close> that names
  payload \<open>k\<close> and its expected shape. When payload \<open>k\<close> does not decode, \<open>e\<close>
  is \<^verbatim>\<open>ValueError("Invalid JSON in parameters: <decoder message>")\<close>, without
  the payload's name (an exception of the decoder that is no
  \<^verbatim>\<open>JSONDecodeError\<close> is raised as it is).
\<close>

theorem first_violation_wins:
  assumes "k < 6"
      and "\<forall>i<k. valid_payload env (payload_shapes ! i) ([nb, py, jar, pl, sq, dbt] ! i)"
      and "\<not> valid_payload env (payload_shapes ! k) ([nb, py, jar, pl, sq, dbt] ! k)"
  shows "\<exists>e. parse_parameters env nb py jar pl sq dbt =
                (Inl e, decoded (take (Suc k) [nb, py, jar, pl, sq, dbt]))
            \<and> (\<forall>j tok. strip j \<noteq> [] \<and> client_init env = None \<longrightarrow>
                  trigger_databricks_flow env (Some j) nb py jar pl sq dbt tok =
                    (Raised e, WorkspaceClient # decoded (take (Suc k) [nb, py, jar, pl, sq, dbt])))
            \<and> (\<forall>s v. [nb, py, jar, pl, sq, dbt] ! k = Some s \<and> json_loads env s = Inr v \<longrightarrow>
                  e = Exn ''ValueError''
                        (payload_names ! k @ '' must be a JSON '' @
                         shape_text (payload_shapes ! k)))
            \<and> (\<forall>s d. [nb, py, jar, pl, sq, dbt] ! k = Some s \<and> json_loads env s = Inl d \<longrightarrow>
                  e = (if exn_type d = ''JSONDecodeError''
                       then Exn ''ValueError'' (''Invalid JSON in parameters: '' @ exn_msg d)
                       else d))"
proof -
  define e where "e = projl (fst (parse_payload env (payload_names ! k) (payload_shapes ! k)
                               ([nb, py, jar, pl, sq, dbt] ! k)))"
  have pp: "parse_parameters env nb py jar pl sq dbt =
                (Inl e, decoded (take (Suc k) [nb, py, jar, pl, sq, dbt]))"
    unfolding e_def by (rule parse_parameters_first_error [OF assms])
  have tr: "\<forall>j tok. strip j \<noteq> [] \<and> client_init env = None \<longrightarrow>
                  trigger_databricks_flow env (Some j) nb py jar pl sq dbt tok =
                    (Raised e, WorkspaceClient # decoded (take (Suc k) [nb, py, jar, pl, sq, dbt]))"
    using pp by (simp add: trigger_invalid_parameters)
  have sh: "\<forall>s v. [nb, py, jar, pl, sq, dbt] ! k = Some s \<and> json_loads env s = Inr v \<longrightarrow>
                  e = Exn ''ValueError''
                        (payload_names ! k @ '' must be a JSON '' @
                         shape_text (payload_shapes ! k))"
  proof (intro allI impI)
    fix s v
    assume h: "[nb, py, jar, pl, sq, dbt] ! k = Some s \<and> json_loads env s = Inr v"
    with assms(3) have ne: "s \<noteq> []" and nv: "\<not> has_shape (payload_shapes ! k) v"
      by (auto simp: valid_payload_def)
    from h ne nv show "e = Exn ''ValueError''
                        (payload_names ! k @ '' must be a JSON '' @
                         shape_text (payload_shapes ! k))"
      by (simp add: e_def parse_payload_shape_error)
  qed
  have de: "\<forall>s d. [nb, py, jar, pl, sq, dbt] ! k = Some s \<and> json_loads env s = Inl d \<longrightarrow>
                  e = (if exn_type d = ''JSONDecodeError''
                       then Exn ''ValueError'' (''Invalid JSON in parameters: '' @ exn_msg d)
                       else d)"
  proof (intro allI impI)
    fix s d
    assume h: "[nb, py, jar, pl, sq, dbt] ! k = Some s \<and> json_loads env s = Inl d"
    with assms(3) have ne: "s \<noteq> []"
      by (auto simp: valid_payload_def)
    from h ne show "e = (if exn_type d = ''JSONDecodeError''
                       then Exn ''ValueError'' (''Invalid JSON in parameters: '' @ exn_msg d)
                       else d)"
      by (simp add: e_def parse_payload_decode_error)
  qed
  from pp tr sh de show ?thesis
    by blast
qed

theorem first_violation_wins_witness:
  "parse_parameters demo_env (Some ''{}'') (Some ''oops'') (Some ''{}'') None None None =
     (Inl (Exn ''ValueError''
             ''Invalid JSON in parameters: Expecting value: line 1 column 1 (char 0)''),
      [JsonLoads ''{}'', JsonLoads ''oops''])"
proof -
  have a: "(1::nat) < 6"
    by simp
  have b: "\<forall>i<1. valid_payload demo_env (payload_shapes ! i)
                    ([Some ''{}'', Some ''oops'', Some ''{}'', None, None, None] ! i)"
    by (simp add: valid_payload_def payload_shapes_def demo_env_def demo_loads_def)
  have c: "\<not> valid_payload demo_env (payload_shapes ! 1)
                ([Some ''{}'', Some ''oops'', Some ''{}'', None, None, None] ! 1)"
    by (simp add: valid_payload_def payload_shapes_def demo_env_def demo_loads_def)
  have d: "json_loads demo_env ''oops'' =
             Inl (Exn ''JSONDecodeError'' ''Expecting value: line 1 column 1 (char 0)'')"
    by (simp add: demo_env_def demo_loads_def)
  from first_violation_wins [OF a b c] d show ?thesis
    by (auto simp: decoded_def)
qed

section \<open>The poller does not check its configuration\<close>

text \<open>
  Claim C5 as stated fails: no check of \<^verbatim>\<open>poll_interval\<close> or \<^verbatim>\<open>max_wait\<close>
  exists. With \<^verbatim>\<open>poll_interval = 0\<close> a run that is finished at the first query is
  returned after that query; with \<^verbatim>\<open>max_wait = 0\<close> the call returns
  \<^verbatim>\<open>None\<close>, the outcome of a time-out. Nothing is raised in either call.
\<close>

theorem poll_config_counterexample:
  "monitor done_nb (JInt 555) 0 5 = Some (Returned (Some terminated_status), [StatusQuery (JInt 555)])
   \<and> monitor done_nb (JInt 555) 30 0 = Some (Returned None, [])"
  by code_simp

text \<open>
  Claim C5, amended. A monitor call does not check \<^verbatim>\<open>poll_interval\<close> or
  \<^verbatim>\<open>max_wait\<close>. With \<^verbatim>\<open>max_wait\<close> zero or negative it returns \<^verbatim>\<open>None\<close>
  without a query and without an error. With a positive \<^verbatim>\<open>max_wait\<close>, whatever
  \<^verbatim>\<open>poll_interval\<close> is, the call never ends before its first status query: every
  outcome, returned or raised, comes after that query. If the first answer makes the
  loop return (a successful answer in a terminal state), it is returned at once. If
  the first answer makes the loop go on and \<^verbatim>\<open>time.sleep(poll_interval)\<close> raises,
  as it does for a negative \<^verbatim>\<open>poll_interval\<close>, that exception is raised after the
  first query. With \<^verbatim>\<open>poll_interval = 0\<close>, \<^verbatim>\<open>time.sleep(0)\<close> returning, the call
  never returns while no answer makes the loop return.
\<close>

theorem poll_config_is_not_checked:
  "(max_wait \<le> 0 \<longrightarrow> monitor env rid poll_interval max_wait = Some (Returned None, []))
   \<and> (\<forall>out tr. 0 < max_wait \<and> monitor env rid poll_interval max_wait = Some (out, tr) \<longrightarrow>
          (\<exists>rest. tr = StatusQuery rid # rest))
   \<and> (\<forall>d. 0 < max_wait \<and> sql_get_job_status env 0 rid = Inr d \<and> completed d = Inr True \<longrightarrow>
          monitor env rid poll_interval max_wait = Some (Returned (Some d), [StatusQuery rid]))
   \<and> (\<forall>d x. 0 < max_wait \<and> sql_get_job_status env 0 rid = Inr d \<and> completed d = Inr False
          \<and> time_sleep env poll_interval = Some x \<longrightarrow>
          monitor env rid poll_interval max_wait = Some (Raised x, [StatusQuery rid]))
   \<and> (0 < max_wait \<and> poll_interval = 0 \<and> time_sleep env 0 = None
       \<and> (\<forall>k. \<exists>d. sql_get_job_status env k rid = Inr d \<and> completed d = Inr False) \<longrightarrow>
          monitor env rid poll_interval max_wait = None)"
proof (intro conjI allI impI)
  assume "max_wait \<le> 0"
  then show "monitor env rid poll_interval max_wait = Some (Returned None, [])"
    by (simp add: monitor_def loop_over)
next
  fix out tr
  assume h: "0 < max_wait \<and> monitor env rid poll_interval max_wait = Some (out, tr)"
  then have "monitor_loop env rid poll_interval max_wait 0 0 [] = Some (out, tr)"
    by (simp add: monitor_def)
  from loop_trace [OF this] h show "\<exists>rest. tr = StatusQuery rid # rest"
    by simp
next
  fix d
  assume "0 < max_wait \<and> sql_get_job_status env 0 rid = Inr d \<and> completed d = Inr True"
  then show "monitor env rid poll_interval max_wait = Some (Returned (Some d), [StatusQuery rid])"
    by (simp add: monitor_def loop_done)
next
  fix d x
  assume "0 < max_wait \<and> sql_get_job_status env 0 rid = Inr d \<and> completed d = Inr False
          \<and> time_sleep env poll_interval = Some x"
  then show "monitor env rid poll_interval max_wait = Some (Raised x, [StatusQuery rid])"
    by (simp add: monitor_def loop_sleep_raises)
next
  assume "0 < max_wait \<and> poll_interval = 0 \<and> time_sleep env 0 = None
       \<and> (\<forall>k. \<exists>d. sql_get_job_status env k rid = Inr d \<and> completed d = Inr False)"
  then show "monitor env rid poll_interval max_wait = None"
    by (simp add: monitor_def loop_never_returns)
qed

theorem poll_config_is_not_checked_witness:
  "monitor done_nb (JInt 555) 30 0 = Some (Returned None, [])
   \<and> monitor done_nb (JInt 555) 0 5 =
       Some (Returned (Some terminated_status), [StatusQuery (JInt 555)])
   \<and> (\<exists>rest. [StatusQuery (JInt 555)] = StatusQuery (JInt 555) # rest)
   \<and> monitor running_nb (JInt 555) (- 1) 5 =
       Some (Raised (Exn ''ValueError'' ''sleep length must be non-negative''),
             [StatusQuery (JInt 555)])
   \<and> monitor running_nb (JInt 555) 0 5 = None"
proof -
  have r: "\<And>k. sql_get_job_status running_nb k (JInt 555) = Inr running_status"
    by (simp add: running_nb_def)
  have s1: "time_sleep running_nb (- 1) = Some sleep_error"
    by (simp add: running_nb_def demo_sleep_def)
  have s0: "time_sleep running_nb 0 = None"
    by (simp add: running_nb_def demo_sleep_def)
  from poll_config_is_not_checked [of 0 done_nb "JInt 555" 30]
  have 1: "monitor done_nb (JInt 555) 30 0 = Some (Returned None, [])"
    by simp
  from poll_config_is_not_checked [of 5 done_nb "JInt 555" 0] done_first terminated_completed
  have 2: "monitor done_nb (JInt 555) 0 5 =
       Some (Returned (Some terminated_status), [StatusQuery (JInt 555)])"
    by simp
  from poll_config_is_not_checked [of 5 done_nb "JInt 555" 0] 2
  have 3: "\<exists>rest. [StatusQuery (JInt 555)] = StatusQuery (JInt 555) # rest"
    by simp
  from poll_config_is_not_checked [of 5 running_nb "JInt 555" "- 1"] r running_completed s1
  have 4: "monitor running_nb (JInt 555) (- 1) 5 =
       Some (Raised (Exn ''ValueError'' ''sleep length must be non-negative''),
             [StatusQuery (JInt 555)])"
    by (simp add: sleep_error_def)
  from poll_config_is_not_checked [of 5 running_nb "JInt 555" 0] r running_completed s0
  have 5: "monitor running_nb (JInt 555) 0 5 = None"
    by simp
  from 1 2 3 4 5 show ?thesis by simp
qed

section \<open>A status query that reports a failure\<close>

text \<open>
  Claim C6 as stated fails: a status answer whose \<^verbatim>\<open>success\<close> is false is not
  surfaced. The loop sleeps and asks again; here the second answer ends the call.
\<close>

theorem unsuccessful_query_counterexample:
  "monitor flaky_nb (JInt 555) 1 5 =
     Some (Returned (Some terminated_status),
           [StatusQuery (JInt 555), Sleep 1, StatusQuery (JInt 555)])
   \<and> sql_get_job_status flaky_nb 0 (JInt 555) = Inr failed_query
   \<and> py_get failed_query ''success'' JNull = Inr (JBool False)"
  by code_simp

text \<open>
  Claim C6, amended. In an iteration whose status answer reports no success the
  failure is not surfaced: the loop calls \<^verbatim>\<open>time.sleep(poll_interval)\<close>. If the
  sleep returns, the loop goes on from \<^verbatim>\<open>elapsed + poll_interval\<close> exactly as
  after an answer that is not terminal, so the query is silently retried while
  \<^verbatim>\<open>elapsed < max_wait\<close>. If the sleep raises, the exception of the sleep is what
  the caller gets, not the failure of the query. Only an exception raised by the
  query itself reaches the caller as it is. Against a backend whose every answer
  reports no success, a call with a positive \<^verbatim>\<open>poll_interval\<close> whose sleep returns
  ends as a time-out, after \<open>\<lceil>max_wait / poll_interval\<rceil>\<close> queries.
\<close>

theorem failed_query_is_retried:
  "(\<forall>d ok. elapsed < max_wait \<and> sql_get_job_status env k rid = Inr d
            \<and> py_get d ''success'' JNull = Inr ok \<and> \<not> truthy ok
            \<and> time_sleep env poll_interval = None \<longrightarrow>
        monitor_loop env rid poll_interval max_wait elapsed k tr =
          monitor_loop env rid poll_interval max_wait (elapsed + poll_interval) (Suc k)
            (tr @ [StatusQuery rid, Sleep poll_interval]))
   \<and> (\<forall>d ok x. elapsed < max_wait \<and> sql_get_job_status env k rid = Inr d
            \<and> py_get d ''success'' JNull = Inr ok \<and> \<not> truthy ok
            \<and> time_sleep env poll_interval = Some x \<longrightarrow>
        monitor_loop env rid poll_interval max_wait elapsed k tr =
          Some (Raised x, tr @ [StatusQuery rid]))
   \<and> (\<forall>x. elapsed < max_wait \<and> sql_get_job_status env k rid = Inl x \<longrightarrow>
        monitor_loop env rid poll_interval max_wait elapsed k tr =
          Some (Raised x, tr @ [StatusQuery rid]))
   \<and> (0 < poll_interval \<and> time_sleep env poll_interval = None
       \<and> (\<forall>k. \<exists>d ok. sql_get_job_status env k rid = Inr d \<and> py_get d ''success'' JNull = Inr ok
                      \<and> \<not> truthy ok) \<longrightarrow>
        (\<exists>tr'. monitor env rid poll_interval max_wait = Some (Returned None, tr')
              \<and> status_queries tr' = nat ((max_wait + poll_interval - 1) div poll_interval)))"
proof (intro conjI allI impI)
  fix d ok
  assume "elapsed < max_wait \<and> sql_get_job_status env k rid = Inr d
            \<and> py_get d ''success'' JNull = Inr ok \<and> \<not> truthy ok
            \<and> time_sleep env poll_interval = None"
  then show "monitor_loop env rid poll_interval max_wait elapsed k tr =
          monitor_loop env rid poll_interval max_wait (elapsed + poll_interval) (Suc k)
            (tr @ [StatusQuery rid, Sleep poll_interval])"
    by (simp add: loop_again completed_unsuccess)
next
  fix d ok x
  assume "elapsed < max_wait \<and> sql_get_job_status env k rid = Inr d
            \<and> py_get d ''success'' JNull = Inr ok \<and> \<not> truthy ok
            \<and> time_sleep env poll_interval = Some x"
  then show "monitor_loop env rid poll_interval max_wait elapsed k tr =
          Some (Raised x, tr @ [StatusQuery rid])"
    by (simp add: loop_sleep_raises completed_unsuccess)
next
  fix x
  assume "elapsed < max_wait \<and> sql_get_job_status env k rid = Inl x"
  then show "monitor_loop env rid poll_interval max_wait elapsed k tr =
          Some (Raised x, tr @ [StatusQuery rid])"
    by (simp add: loop_raises)
next
  assume h: "0 < poll_interval \<and> time_sleep env poll_interval = None
       \<and> (\<forall>k. \<exists>d ok. sql_get_job_status env k rid = Inr d \<and> py_get d ''success'' JNull = Inr ok
                      \<and> \<not> truthy ok)"
  then have a: "0 < poll_interval" and s: "time_sleep env poll_interval = None"
    and b: "\<forall>k. \<exists>d. sql_get_job_status env k rid = Inr d \<and> completed d = Inr False"
    by (auto dest: completed_unsuccess)
  from loop_times_out [OF a b s, of max_wait 0 0 "[]"]
  show "\<exists>tr'. monitor env rid poll_interval max_wait = Some (Returned None, tr')
              \<and> status_queries tr' = nat ((max_wait + poll_interval - 1) div poll_interval)"
    by (auto simp: monitor_def status_queries_def)
qed

theorem failed_query_is_retried_witness:
  "monitor_loop flaky_nb (JInt 555) 1 5 0 0 [] =
     Some (Returned (Some terminated_status),
           [StatusQuery (JInt 555), Sleep 1, StatusQuery (JInt 555)])
   \<and> monitor_loop down_nb (JInt 555) (- 1) 5 0 0 [] =
       Some (Raised sleep_error, [StatusQuery (JInt 555)])
   \<and> monitor_loop broken_nb (JInt 555) 1 5 0 0 [] =
       Some (Raised connection_lost, [StatusQuery (JInt 555)])
   \<and> (\<exists>tr'. monitor down_nb (JInt 555) 2 5 = Some (Returned None, tr')
            \<and> status_queries tr' = 3)"
proof -
  have d: "\<And>k. sql_get_job_status down_nb k (JInt 555) = Inr failed_query"
    by (simp add: down_nb_def)
  have b: "sql_get_job_status broken_nb 0 (JInt 555) = Inl connection_lost"
    by (simp add: broken_nb_def)
  have sf: "time_sleep flaky_nb 1 = None"
    by (simp add: flaky_nb_def demo_sleep_def)
  have sd: "time_sleep down_nb 2 = None"
    by (simp add: down_nb_def demo_sleep_def)
  have sn: "time_sleep down_nb (- 1) = Some sleep_error"
    by (simp add: down_nb_def demo_sleep_def)
  from failed_query_is_retried [of 0 5 flaky_nb 0 "JInt 555" 1 "[]"] flaky_first failed_success sf
  have 1: "monitor_loop flaky_nb (JInt 555) 1 5 0 0 [] =
     Some (Returned (Some terminated_status),
           [StatusQuery (JInt 555), Sleep 1, StatusQuery (JInt 555)])"
    by (simp add: flaky_second)
  from failed_query_is_retried [of 0 5 down_nb 0 "JInt 555" "- 1" "[]"] d failed_success sn
  have 2: "monitor_loop down_nb (JInt 555) (- 1) 5 0 0 [] =
       Some (Raised sleep_error, [StatusQuery (JInt 555)])"
    by simp
  from failed_query_is_retried [of 0 5 broken_nb 0 "JInt 555" 1 "[]"] b
  have 3: "monitor_loop broken_nb (JInt 555) 1 5 0 0 [] =
       Some (Raised connection_lost, [StatusQuery (JInt 555)])"
    by simp
  from failed_query_is_retried [of 0 5 down_nb 0 "JInt 555" 2 "[]"] d failed_success sd
  have 4: "\<exists>tr'. monitor down_nb (JInt 555) 2 5 = Some (Returned None, tr')
            \<and> status_queries tr' = 3"
    by simp
  from 1 2 3 4 show ?thesis by simp
qed

section \<open>The first query\<close>



section \<open>A run that never finishes\<close>




end
